theory Spec2Isabelle
  imports Complex_Main "HOL-Library.Log_Nat" "HOL-Library.AList" "HOL-Library.Multiset"
begin

section \<open>Python values used by the trends backend\<close>

text \<open>
  The backend passes JSON documents around as Python dicts. A document is modelled as an
  association list from key to value, in insertion order (the order Python dicts keep):
  \<open>d[k] = v\<close> is \<open>AList.update k v d\<close> (the value is replaced in place, a new key goes to
  the end), \<open>k in d\<close> is \<open>map_of d k \<noteq> None\<close>. The only list-valued keys are \<open>trends\<close> and
  \<open>tweets\<close>; their items have the type parameter \<open>'a\<close>.
\<close>

datatype 'a val = JNull | JBool bool | JInt int | JNum rat | JStr string | JList "'a list"

type_synonym 'a doc = "(string \<times> 'a val) list"

text \<open>Python truthiness, as \<open>if result['success']:\<close> and \<open>if cached:\<close> read it.\<close>

fun truthy :: "'a val \<Rightarrow> bool" where
  "truthy JNull = False"
| "truthy (JBool b) = b"
| "truthy (JInt n) = (n \<noteq> 0)"
| "truthy (JNum x) = (x \<noteq> 0)"
| "truthy (JStr s) = (s \<noteq> [])"
| "truthy (JList xs) = (xs \<noteq> [])"

text \<open>\<open>xs[:n]\<close>: a negative \<open>n\<close> counts from the end.\<close>

definition slice_to :: "int \<Rightarrow> 'a list \<Rightarrow> 'a list" where
  "slice_to n xs = (if 0 \<le> n then take (nat n) xs else take (nat (int (length xs) + n)) xs)"

text \<open>\<open>int(x)\<close> on a float truncates towards zero.\<close>

definition py_int :: "rat \<Rightarrow> int" where
  "py_int x = (if 0 \<le> x then \<lfloor>x\<rfloor> else \<lceil>x\<rceil>)"

text \<open>The decimal digits of a number, for \<open>f"HTTP {status}"\<close>.\<close>

fun dec :: "nat \<Rightarrow> string" where
  "dec n = (if n < 10 then [''0123456789'' ! n]
            else dec (n div 10) @ [''0123456789'' ! (n mod 10)])"

text \<open>
  \<open>str.lower()\<close> and \<open>str.strip()\<close> work on Unicode text, with the case mappings and
  the white space of the Unicode tables. The model does not hold these tables: the
  functions that call them take them as the parameters \<open>lower\<close> and \<open>strip\<close>, and
  what is proved holds for every such function. On strings of ASCII characters the two
  are the functions below; they stand for \<open>lower\<close> and \<open>strip\<close> where a theorem
  evaluates the code on a concrete ASCII input, and nowhere else.
\<close>

definition ascii_lower_char :: "char \<Rightarrow> char" where
  "ascii_lower_char c =
     (case map_of (zip ''ABCDEFGHIJKLMNOPQRSTUVWXYZ'' ''abcdefghijklmnopqrstuvwxyz'') c of
        None \<Rightarrow> c | Some l \<Rightarrow> l)"

definition ascii_lower :: "string \<Rightarrow> string" where
  "ascii_lower s = map ascii_lower_char s"

definition ascii_space :: "char \<Rightarrow> bool" where
  "ascii_space c = (c \<in> set [CHR '' '', CHR 0x09, CHR 0x0A, CHR 0x0B, CHR 0x0C, CHR 0x0D])"

definition ascii_strip :: "string \<Rightarrow> string" where
  "ascii_strip s = rev (dropWhile ascii_space (rev (dropWhile ascii_space s)))"

subsection \<open>Floating point\<close>

text \<open>
  \<open>extract_hashtags\<close> divides and multiplies in Python floats (IEEE 754 binary64). A float
  is modelled by the rational it denotes; \<open>fl\<close> rounds a rational to the nearest number
  with a 53-bit significand, ties to even. The exponent range is not bounded: the model
  is exact for magnitudes between \<open>2^-1022\<close> and \<open>2^1023\<close>, far beyond what engagement
  counters reach.
\<close>

definition round_half_even :: "rat \<Rightarrow> int" where
  "round_half_even x =
     (let f = \<lfloor>x\<rfloor>; d = x - of_int f in
      if d < 1 / 2 then f
      else if 1 / 2 < d then f + 1
      else if even f then f else f + 1)"

text \<open>\<open>ilog2 x\<close> is the integer \<open>k\<close> with \<open>2^k \<le> x < 2^(k+1)\<close>, for \<open>x > 0\<close>.\<close>

definition ilog2 :: "rat \<Rightarrow> int" where
  "ilog2 x = (if 1 \<le> x then bitlen \<lfloor>x\<rfloor> - 1 else - bitlen (\<lceil>1 / x\<rceil> - 1))"

definition fl :: "rat \<Rightarrow> rat" where
  "fl x =
     (if x = 0 then 0
      else let e = ilog2 \<bar>x\<bar> - 52 in
        sgn x * of_int (round_half_even (\<bar>x\<bar> / 2 powi e)) * 2 powi e)"

text \<open>\<open>a / b\<close> on two ints is the correctly rounded quotient.\<close>

definition py_truediv :: "int \<Rightarrow> int \<Rightarrow> rat" where
  "py_truediv a b = fl (of_int a / of_int b)"

text \<open>\<open>n * x\<close> on an int and a float converts the int, then multiplies.\<close>

definition py_int_times_float :: "int \<Rightarrow> rat \<Rightarrow> rat" where
  "py_int_times_float n x = fl (fl (of_int n) * x)"

section \<open>collectors/twitter_search.py\<close>

subsection \<open>Data\<close>

text \<open>
  A tweet of the search reply, with the parts the collector reads:
  \<open>entities.hashtags[].tag\<close> (\<open>None\<close> when \<open>entities\<close> or \<open>hashtags\<close> is missing) and
  \<open>public_metrics\<close> with its three optional counters.
\<close>

record metrics =
  like_count :: "int option"
  retweet_count :: "int option"
  reply_count :: "int option"

record tweet =
  entities_hashtags :: "string list option"
  public_metrics :: "metrics option"

text \<open>
  What \<open>requests.get\<close> did for one search call: it raised, or it answered with a status
  code, a body text and, as parsed JSON, the \<open>data\<close> list (\<open>None\<close> when the JSON has no
  \<open>data\<close> key, as for a search with no result).
\<close>

datatype http_outcome = Raises string | Reply nat string "tweet list option"

text \<open>
  The dict \<open>search_recent_tweets\<close> returns: the parsed JSON of a 200 reply, or an error
  dict \<open>{"error": .., "message": ..}\<close> (no \<open>message\<close> when the call raised).
\<close>

datatype tweets_data = Body "tweet list option" | ErrorDict string "string option"

definition search_recent_tweets :: "http_outcome \<Rightarrow> tweets_data" where
  "search_recent_tweets out =
     (case out of
        Raises e \<Rightarrow> ErrorDict e None
      | Reply status_code text json_data \<Rightarrow>
          if status_code = 200 then Body json_data
          else ErrorDict (''HTTP '' @ dec status_code) (Some text))"

text \<open>The entry of \<open>hashtag_stats\<close> for one tag, and a record of the ranked list.\<close>

record tag_stats =
  st_count :: int
  st_total_engagement :: int
  st_avg_engagement :: rat

record hashtag_stat =
  hashtag :: string
  mentions :: int
  total_engagement :: int
  avg_engagement :: int
  velocity_score :: int

subsection \<open>extract_hashtags\<close>

definition engagement :: "tweet \<Rightarrow> int" where
  "engagement tw =
     (case public_metrics tw of
        None \<Rightarrow> 0 + 0 * 2 + 0
      | Some m \<Rightarrow>
          (case like_count m of None \<Rightarrow> 0 | Some n \<Rightarrow> n)
          + (case retweet_count m of None \<Rightarrow> 0 | Some n \<Rightarrow> n) * 2
          + (case reply_count m of None \<Rightarrow> 0 | Some n \<Rightarrow> n))"

text \<open>The body of \<open>for tag in hashtags\<close>: create the entry if missing, then count.\<close>

definition score_tag :: "int \<Rightarrow> (string \<times> tag_stats) list \<Rightarrow> string \<Rightarrow> (string \<times> tag_stats) list" where
  "score_tag eng hashtag_stats tag =
     (let s = (case map_of hashtag_stats tag of
                 None \<Rightarrow> \<lparr>st_count = 0, st_total_engagement = 0, st_avg_engagement = 0\<rparr>
               | Some s \<Rightarrow> s)
      in AList.update tag
           (s\<lparr>st_count := st_count s + 1, st_total_engagement := st_total_engagement s + eng\<rparr>)
           hashtag_stats)"

text \<open>
  The body of \<open>for tweet in tweets_data["data"]\<close>; \<open>lower\<close> is \<open>str.lower\<close>.
\<close>

definition score_tweet ::
    "(string \<Rightarrow> string) \<Rightarrow> (string \<times> tag_stats) list \<Rightarrow> tweet \<Rightarrow> (string \<times> tag_stats) list" where
  "score_tweet lower hashtag_stats tw =
     (let hashtags = (case entities_hashtags tw of None \<Rightarrow> [] | Some tags \<Rightarrow> map lower tags)
      in foldl (score_tag (engagement tw)) hashtag_stats hashtags)"

text \<open>The second loop: the average, a float.\<close>

definition set_average :: "tag_stats \<Rightarrow> tag_stats" where
  "set_average s =
     (if 0 < st_count s
      then s\<lparr>st_avg_engagement := py_truediv (st_total_engagement s) (st_count s)\<rparr>
      else s)"

text \<open>The third loop: one record of \<open>ranked\<close>.\<close>

definition ranked_entry :: "string \<times> tag_stats \<Rightarrow> hashtag_stat" where
  "ranked_entry p =
     (case p of (tag, stats) \<Rightarrow>
        let velocity = py_int_times_float (st_count stats) (st_avg_engagement stats) in
        \<lparr>hashtag = ''#'' @ tag,
         mentions = st_count stats,
         total_engagement = st_total_engagement stats,
         avg_engagement = py_int (st_avg_engagement stats),
         velocity_score = py_int velocity\<rparr>)"

text \<open>
  \<open>list.sort(key=.., reverse=True)\<close> is stable: records with equal keys keep their order.
  So it is the stable insertion sort on the negated key.
\<close>

definition sort_desc :: "('a \<Rightarrow> int) \<Rightarrow> 'a list \<Rightarrow> 'a list" where
  "sort_desc key xs = sort_key (\<lambda>x. - key x) xs"

definition extract_hashtags :: "(string \<Rightarrow> string) \<Rightarrow> tweets_data \<Rightarrow> hashtag_stat list" where
  "extract_hashtags lower tweets_data =
     (case tweets_data of
        ErrorDict e m \<Rightarrow> []
      | Body None \<Rightarrow> []
      | Body (Some tweets) \<Rightarrow>
          let hashtag_stats = foldl (score_tweet lower) [] tweets;
              hashtag_stats = map (\<lambda>(tag, s). (tag, set_average s)) hashtag_stats;
              ranked = map ranked_entry hashtag_stats
          in sort_desc velocity_score ranked)"

subsection \<open>find_trending_topics\<close>

text \<open>The entry of \<open>combined\<close> for one hashtag, and a record of \<open>final_trends\<close>.\<close>

record totals =
  c_mentions :: int
  c_total_engagement :: int
  c_velocity_score :: int

record trend =
  t_hashtag :: string
  t_mentions :: int
  t_total_engagement :: int
  t_velocity_score :: int
  t_rank :: int
  t_source :: string
  t_timestamp :: string
  t_topic :: "string option"

text \<open>
  The first loop, over the categories: the ranked hashtags of every reply that has
  \<open>data\<close>; a reply without it is skipped.
\<close>

definition has_data :: "tweets_data \<Rightarrow> bool" where
  "has_data tweets_data = (case tweets_data of Body (Some tweets) \<Rightarrow> True | _ \<Rightarrow> False)"

text \<open>A category's call errored when \<open>search_recent_tweets\<close> returned an error dict.\<close>

definition call_errored :: "http_outcome \<Rightarrow> bool" where
  "call_errored out = (case search_recent_tweets out of ErrorDict e m \<Rightarrow> True | Body b \<Rightarrow> False)"

definition all_hashtags :: "(string \<Rightarrow> string) \<Rightarrow> tweets_data list \<Rightarrow> hashtag_stat list" where
  "all_hashtags lower replies =
     concat (map (\<lambda>tweets_data. if has_data tweets_data then extract_hashtags lower tweets_data
                               else [])
       replies)"

text \<open>
  The body of \<open>for item in all_hashtags\<close>: the entry of the tag, a new one with zeros if
  the tag is not in \<open>combined\<close> yet, gets the item's three numbers added.
\<close>

definition combined_entry :: "(string \<times> totals) list \<Rightarrow> string \<Rightarrow> totals" where
  "combined_entry combined tag =
     (case map_of combined tag of
        None \<Rightarrow> \<lparr>c_mentions = 0, c_total_engagement = 0, c_velocity_score = 0\<rparr>
      | Some c \<Rightarrow> c)"

definition combine_item :: "(string \<times> totals) list \<Rightarrow> hashtag_stat \<Rightarrow> (string \<times> totals) list" where
  "combine_item combined item =
     (let tag = hashtag item;
          c = combined_entry combined tag
      in AList.update tag
           \<lparr>c_mentions = c_mentions c + mentions item,
            c_total_engagement = c_total_engagement c + total_engagement item,
            c_velocity_score = c_velocity_score c + velocity_score item\<rparr>
           combined)"

definition combine :: "hashtag_stat list \<Rightarrow> (string \<times> totals) list" where
  "combine items = foldl combine_item [] items"

text \<open>
  \<open>final_trends\<close>: the values of \<open>combined\<close>, sorted, then ranked from 1. The clock is read
  once per record in the source; the model takes one reading \<open>now\<close> for all of them.
\<close>

definition add_rank :: "string \<Rightarrow> nat \<times> string \<times> totals \<Rightarrow> trend" where
  "add_rank now p =
     (case p of (idx, tag, c) \<Rightarrow>
        \<lparr>t_hashtag = tag,
         t_mentions = c_mentions c,
         t_total_engagement = c_total_engagement c,
         t_velocity_score = c_velocity_score c,
         t_rank = int idx + 1,
         t_source = ''twitter_search'',
         t_timestamp = now,
         t_topic = None\<rparr>)"

definition final_trends :: "(string \<Rightarrow> string) \<Rightarrow> tweets_data list \<Rightarrow> string \<Rightarrow> trend list" where
  "final_trends lower replies now =
     map (add_rank now)
       (List.enumerate 0
          (sort_desc (\<lambda>p. c_velocity_score (snd p)) (combine (all_hashtags lower replies))))"

text \<open>
  \<open>find_trending_topics\<close>, given what each category's search call did, in the order of
  the categories.
\<close>

definition find_trending_topics ::
    "(string \<Rightarrow> string) \<Rightarrow> http_outcome list \<Rightarrow> string \<Rightarrow> trend doc" where
  "find_trending_topics lower outcomes now =
     (let trends = final_trends lower (map search_recent_tweets outcomes) now in
      [(''success'', JBool True),
       (''count'', JInt (int (length trends))),
       (''trends'', JList (take 20 trends)),
       (''fetched_at'', JStr now)])"

section \<open>collectors/google_trends_serpapi.py\<close>

text \<open>
  What the SerpAPI call did: \<open>requests.get\<close> or \<open>raise_for_status\<close> raised a
  \<open>RequestException\<close>, something else raised, or the reply parsed as JSON, of which the
  collector reads the \<open>error\<close> field and the \<open>trending_searches\<close> list (each \<open>None\<close> when
  the key is missing). The trend objects are passed through as they are: their type is the
  parameter \<open>'g\<close>. Loading the API key is outside the model.
\<close>

datatype 'g serp_outcome =
    SerpRequestException string
  | SerpException string
  | SerpJson "string option" "'g list option"

text \<open>\<open>limit\<close> is \<open>None\<close> by default; \<open>if limit:\<close> is false for \<open>None\<close> and for 0.\<close>

definition get_trending_searches :: "'g serp_outcome \<Rightarrow> string \<Rightarrow> int option \<Rightarrow> string \<Rightarrow> 'g doc" where
  "get_trending_searches outcome geo limit now =
     (case outcome of
        SerpRequestException e \<Rightarrow>
          [(''success'', JBool False), (''error'', JStr e),
           (''message'', JStr ''Failed to fetch from SerpAPI'')]
      | SerpException e \<Rightarrow>
          [(''success'', JBool False), (''error'', JStr e),
           (''message'', JStr ''Unexpected error'')]
      | SerpJson (Some e) searches \<Rightarrow>
          [(''success'', JBool False), (''error'', JStr e),
           (''message'', JStr ''SerpAPI returned an error'')]
      | SerpJson None searches \<Rightarrow>
          let trending_searches = (case searches of None \<Rightarrow> [] | Some xs \<Rightarrow> xs) in
          if trending_searches = [] then
            [(''success'', JBool False), (''error'', JStr ''No trending searches found''),
             (''message'', JStr ''API returned empty results'')]
          else
            let limited = (case limit of
                             None \<Rightarrow> trending_searches
                           | Some l \<Rightarrow> if l \<noteq> 0 then slice_to l trending_searches
                                       else trending_searches)
            in [(''success'', JBool True),
                (''count'', JInt (int (length limited))),
                (''total_available'', JInt (int (length trending_searches))),
                (''geo'', JStr geo),
                (''fetched_at'', JStr now),
                (''source'', JStr ''serpapi_trending_now''),
                (''trends'', JList limited)])"

section \<open>collectors/google_trends_rss.py\<close>

text \<open>
  A child element of a feed item is missing, or present with its text (\<open>None\<close> for an
  empty element).
\<close>

datatype elem = Missing | Element "string option"

record news_item =
  news_item_title :: elem
  news_item_url :: elem
  news_item_source :: elem

record feed_item =
  title :: elem
  link :: elem
  pubDate :: elem
  approx_traffic :: elem
  news_items :: "news_item list"

text \<open>
  What the feed call did: \<open>requests.get\<close> raised a \<open>RequestException\<close>, something else
  raised, or the feed answered with a status code and a body text; \<open>ET.fromstring\<close> on the
  body gives a parse error or the \<open>item\<close> elements in document order.
\<close>

datatype feed_outcome =
    FeedRequestException string
  | FeedException string
  | FeedReply nat string "string + feed_item list"

record article =
  a_title :: "string option"
  a_url :: "string option"
  a_source :: "string option"

record rss_trend =
  r_rank :: int
  r_topic :: "string option"
  r_url :: "string option"
  r_pub_date :: "string option"
  r_approximate_traffic :: "string option"
  r_related_articles :: "article list"
  r_source :: string
  r_geo :: string
  r_timestamp :: string

definition text_or_none :: "elem \<Rightarrow> string option" where
  "text_or_none e = (case e of Missing \<Rightarrow> None | Element t \<Rightarrow> t)"

text \<open>The inner loop over \<open>news_items[:3]\<close>.\<close>

definition related_article :: "news_item \<Rightarrow> article list" where
  "related_article news =
     (case (news_item_title news, news_item_url news) of
        (Element t, Element u) \<Rightarrow>
          [\<lparr>a_title = t, a_url = u, a_source = text_or_none (news_item_source news)\<rparr>]
      | _ \<Rightarrow> [])"

text \<open>The body of \<open>for idx, item in enumerate(root.findall('.//item'))\<close>.\<close>

definition trend_data :: "string \<Rightarrow> string \<Rightarrow> nat \<times> feed_item \<Rightarrow> rss_trend" where
  "trend_data geo now p =
     (case p of (idx, item) \<Rightarrow>
        \<lparr>r_rank = int idx + 1,
         r_topic = (case title item of Missing \<Rightarrow> Some ''Unknown'' | Element t \<Rightarrow> t),
         r_url = text_or_none (link item),
         r_pub_date = text_or_none (pubDate item),
         r_approximate_traffic = text_or_none (approx_traffic item),
         r_related_articles = concat (map related_article (take 3 (news_items item))),
         r_source = ''google_trends_rss'',
         r_geo = geo,
         r_timestamp = now\<rparr>)"

definition fetch_trends :: "feed_outcome \<Rightarrow> string \<Rightarrow> string \<Rightarrow> rss_trend doc" where
  "fetch_trends outcome geo now =
     (case outcome of
        FeedRequestException e \<Rightarrow>
          [(''success'', JBool False), (''error'', JStr ''Network error''), (''message'', JStr e)]
      | FeedException e \<Rightarrow>
          [(''success'', JBool False), (''error'', JStr ''Unknown error''), (''message'', JStr e)]
      | FeedReply status_code text parsed \<Rightarrow>
          if status_code \<noteq> 200 then
            [(''success'', JBool False), (''error'', JStr (''HTTP '' @ dec status_code)),
             (''message'', JStr (take 200 text))]
          else
            (case parsed of
               Inl e \<Rightarrow>
                 [(''success'', JBool False), (''error'', JStr ''XML parse error''),
                  (''message'', JStr e)]
             | Inr items \<Rightarrow>
                 let trends = map (trend_data geo now) (List.enumerate 0 items) in
                 [(''success'', JBool True),
                  (''count'', JInt (int (length trends))),
                  (''trends'', JList trends),
                  (''geo'', JStr geo),
                  (''fetched_at'', JStr now)]))"

section \<open>api.py\<close>

subsection \<open>The cache files and the responses\<close>

text \<open>
  A cache file is missing, or holds the JSON document last written to it, with its
  modification time. Clock readings and modification times are floats, in seconds.
  \<open>json.dump\<close> followed by \<open>json.load\<close> gives the document back: the documents written
  hold strings, integers, booleans and lists only.
\<close>

type_synonym 'a slot = "('a doc \<times> rat) option"

text \<open>
  A handler answers with a status code and a JSON body, or an exception leaves it
  (\<open>KeyError\<close> on a missing key), which Flask turns into an error page.
\<close>

datatype 'a response = Respond nat "'a doc" | Uncaught string

definition cache_age :: "rat \<Rightarrow> rat \<Rightarrow> rat" where
  "cache_age now mtime = fl (now - mtime)"

text \<open>
  The test that opens every cached handler: not \<open>fresh\<close>, the file exists, and its age is
  below the time to live. It gives the file's document and its age.
\<close>

definition cache_hit :: "rat \<Rightarrow> bool \<Rightarrow> rat \<Rightarrow> 'a slot \<Rightarrow> ('a doc \<times> rat) option" where
  "cache_hit ttl fresh now slot =
     (case slot of
        None \<Rightarrow> None
      | Some (cached_data, mtime) \<Rightarrow>
          if \<not> fresh \<and> cache_age now mtime < ttl then Some (cached_data, cache_age now mtime)
          else None)"

text \<open>\<open>d.get(k, default)\<close>.\<close>

definition get_or :: "'a doc \<Rightarrow> string \<Rightarrow> 'a val \<Rightarrow> 'a val" where
  "get_or d k dflt = (case map_of d k of None \<Rightarrow> dflt | Some v \<Rightarrow> v)"

text \<open>
  \<open>d['trends'] = d['trends'][:limit]\<close>, after \<open>f\<close> has been applied to every item (the
  Twitter handler changes the items in place before it slices). A missing key raises
  \<open>KeyError\<close>. A value that is not a list does not occur in a document of this backend; the
  model answers \<open>TypeError\<close> there.
\<close>

definition slice_trends :: "('a \<Rightarrow> 'a) \<Rightarrow> int \<Rightarrow> 'a doc \<Rightarrow> string + 'a doc" where
  "slice_trends f limit d =
     (case map_of d ''trends'' of
        None \<Rightarrow> Inl ''KeyError''
      | Some (JList ts) \<Rightarrow> Inr (AList.update ''trends'' (JList (slice_to limit (map f ts))) d)
      | Some v \<Rightarrow> Inl ''TypeError'')"

text \<open>The items of \<open>d.get('trends', [])\<close>, changed in place by \<open>f\<close>.\<close>

definition map_trends :: "('a \<Rightarrow> 'a) \<Rightarrow> 'a doc \<Rightarrow> 'a doc" where
  "map_trends f d =
     (case map_of d ''trends'' of
        Some (JList ts) \<Rightarrow> AList.update ''trends'' (JList (map f ts)) d
      | _ \<Rightarrow> d)"

subsection \<open>/trends/twitter and /trends/refresh\<close>

text \<open>\<open>if 'hashtag' in trend and 'topic' not in trend: trend['topic'] = trend['hashtag']\<close>.\<close>

definition normalize_trend :: "trend \<Rightarrow> trend" where
  "normalize_trend t = (case t_topic t of None \<Rightarrow> t\<lparr>t_topic := Some (t_hashtag t)\<rparr> | Some x \<Rightarrow> t)"

text \<open>
  \<open>result\<close> is what \<open>twitter_collector.find_trending_topics()\<close> returns when the handler
  calls it; \<open>now\<close> is the clock at the request. The handler returns its response and the
  cache file as it leaves it.
\<close>

definition get_twitter_trends ::
    "trend doc \<Rightarrow> int \<Rightarrow> bool \<Rightarrow> rat \<Rightarrow> trend slot \<Rightarrow> trend response \<times> trend slot" where
  "get_twitter_trends result limit fresh now slot =
     (case cache_hit 3600 fresh now slot of
        Some (cached_data, age) \<Rightarrow>
          (case slice_trends normalize_trend limit cached_data of
             Inl e \<Rightarrow> (Uncaught e, slot)
           | Inr d \<Rightarrow>
               (Respond 200
                  (AList.update ''cache_age_seconds'' (JInt (py_int age))
                     (AList.update ''cached'' (JBool True) d)),
                slot))
      | None \<Rightarrow>
          (case map_of result ''success'' of
             None \<Rightarrow> (Uncaught ''KeyError'', slot)
           | Some ok \<Rightarrow>
               if truthy ok then
                 let result = map_trends normalize_trend result;
                     slot = Some (result, now)
                 in (case slice_trends id limit result of
                       Inl e \<Rightarrow> (Uncaught e, slot)
                     | Inr d \<Rightarrow> (Respond 200 (AList.update ''cached'' (JBool False) d), slot))
               else
                 (Respond 500
                    [(''error'', JStr ''Failed to fetch trends''),
                     (''message'', get_or result ''error'' (JStr ''Unknown error''))],
                  slot)))"

definition refresh_trends :: "trend doc \<Rightarrow> rat \<Rightarrow> trend slot \<Rightarrow> trend response \<times> trend slot" where
  "refresh_trends result now slot =
     (case map_of result ''success'' of
        None \<Rightarrow> (Uncaught ''KeyError'', slot)
      | Some ok \<Rightarrow>
          if truthy ok then
            let slot = Some (result, now) in
            (case (map_of result ''count'', map_of result ''fetched_at'') of
               (Some c, Some f) \<Rightarrow>
                 (Respond 200
                    [(''success'', JBool True),
                     (''message'', JStr ''Trends refreshed successfully''),
                     (''count'', c),
                     (''fetched_at'', f)],
                  slot)
             | _ \<Rightarrow> (Uncaught ''KeyError'', slot))
          else
            (Respond 500
               [(''error'', JStr ''Failed to refresh trends''),
                (''message'', get_or result ''error'' (JStr ''Unknown error''))],
             slot))"

subsection \<open>/trends/google\<close>

text \<open>\<open>round(x, 1)\<close> on a float: the float nearest to the decimal, ties to even.\<close>

definition py_round1 :: "rat \<Rightarrow> rat" where
  "py_round1 x = fl (of_int (round_half_even (x * 10)) / 10)"

text \<open>
  The cached branch: \<open>if limit and limit < len(cached_data.get('trends', []))\<close> slices, then
  three keys are set.
\<close>

definition google_cached :: "int \<Rightarrow> rat \<Rightarrow> 'g doc \<Rightarrow> string + 'g doc" where
  "google_cached limit age cached_data =
     (let n = (case map_of cached_data ''trends'' of Some (JList ts) \<Rightarrow> int (length ts) | _ \<Rightarrow> 0);
          sliced = (if limit \<noteq> 0 \<and> limit < n then slice_trends id limit cached_data
                    else Inr cached_data)
      in case sliced of
           Inl e \<Rightarrow> Inl e
         | Inr d \<Rightarrow>
             Inr (AList.update ''cache_age_hours'' (JNum (py_round1 (fl (age / 3600))))
                   (AList.update ''cache_age_seconds'' (JInt (py_int age))
                     (AList.update ''cached'' (JBool True) d))))"

text \<open>
  \<open>collector geo limit\<close> is what \<open>google_trends_serpapi.get_trending_searches(geo=geo,
  limit=limit)\<close> returns when the handler calls it.
\<close>

definition get_google_trends ::
    "(string \<Rightarrow> int \<Rightarrow> 'g doc) \<Rightarrow> int \<Rightarrow> bool \<Rightarrow> string \<Rightarrow> rat \<Rightarrow> 'g slot
       \<Rightarrow> 'g response \<times> 'g slot" where
  "get_google_trends collector limit fresh geo now slot =
     (case cache_hit 43200 fresh now slot of
        Some (cached_data, age) \<Rightarrow>
          (case google_cached limit age cached_data of
             Inl e \<Rightarrow> (Uncaught e, slot)
           | Inr d \<Rightarrow> (Respond 200 d, slot))
      | None \<Rightarrow>
          (let result = collector geo limit in
           case map_of result ''success'' of
             None \<Rightarrow> (Uncaught ''KeyError'', slot)
           | Some ok \<Rightarrow>
               if truthy ok then
                 let result = AList.update ''cached'' (JBool False) result
                 in (Respond 200 result, Some (result, now))
               else
                 (Respond 500
                    [(''error'', JStr ''Failed to fetch Google trends''),
                     (''message'', get_or result ''message'' (JStr ''Unknown error'')),
                     (''details'', get_or result ''error'' (JStr []))],
                  slot)))"

text \<open>
  The collector as the handler calls it, given what the SerpAPI call does and the clock as
  an ISO string.
\<close>

definition serp_collector :: "'g serp_outcome \<Rightarrow> string \<Rightarrow> string \<Rightarrow> int \<Rightarrow> 'g doc" where
  "serp_collector outcome now_iso geo limit = get_trending_searches outcome geo (Some limit) now_iso"

subsection \<open>/trends/google/rss\<close>

text \<open>\<open>collector geo\<close> is what \<open>google_rss_collector.fetch_trends(geo=geo)\<close> returns.\<close>

definition get_google_trends_rss ::
    "(string \<Rightarrow> 'r doc) \<Rightarrow> int \<Rightarrow> bool \<Rightarrow> string \<Rightarrow> rat \<Rightarrow> 'r slot \<Rightarrow> 'r response \<times> 'r slot" where
  "get_google_trends_rss collector limit fresh geo now slot =
     (case cache_hit 7200 fresh now slot of
        Some (cached_data, age) \<Rightarrow>
          (case slice_trends id limit cached_data of
             Inl e \<Rightarrow> (Uncaught e, slot)
           | Inr d \<Rightarrow>
               (Respond 200
                  (AList.update ''cache_age_seconds'' (JInt (py_int age))
                     (AList.update ''cached'' (JBool True) d)),
                slot))
      | None \<Rightarrow>
          (let result = collector geo in
           case map_of result ''success'' of
             None \<Rightarrow> (Uncaught ''KeyError'', slot)
           | Some ok \<Rightarrow>
               if truthy ok then
                 let slot = Some (result, now) in
                 (case slice_trends id limit result of
                    Inl e \<Rightarrow> (Uncaught e, slot)
                  | Inr d \<Rightarrow>
                      (Respond 200
                         (AList.update ''source'' (JStr ''rss_fallback'')
                            (AList.update ''cached'' (JBool False) d)),
                       slot))
               else
                 (Respond 500
                    [(''error'', JStr ''Failed to fetch Google trends''),
                     (''message'', get_or result ''error'' (JStr ''Unknown error''))],
                  slot)))"

subsection \<open>/trends/twitter/search and its in-memory cache\<close>

text \<open>
  \<open>_twitter_search_cache\<close> maps a key to \<open>{"data": .., "expires": ..}\<close>. The functions take
  the cache and the clock and return the cache as they leave it.
\<close>

type_synonym 'a search_cache = "string \<rightharpoonup> ('a doc \<times> rat)"

definition TWITTER_CACHE_TTL :: rat where
  "TWITTER_CACHE_TTL = 3600"

definition twitter_cache_get :: "string \<Rightarrow> rat \<Rightarrow> 'a search_cache \<Rightarrow> 'a doc option \<times> 'a search_cache" where
  "twitter_cache_get key now cache =
     (case cache key of
        None \<Rightarrow> (None, cache)
      | Some (data, expires) \<Rightarrow>
          if now < expires then (Some data, cache) else (None, cache(key := None)))"

definition twitter_cache_set :: "string \<Rightarrow> 'a doc \<Rightarrow> rat \<Rightarrow> 'a search_cache \<Rightarrow> 'a search_cache" where
  "twitter_cache_set key data now cache = cache(key \<mapsto> (data, fl (now + TWITTER_CACHE_TTL)))"

text \<open>
  The handler after a cache miss. \<open>api_result\<close> is what
  \<open>_fetch_tweets_from_api(query, max_results=limit + 5)\<close> returns when the handler calls it,
  \<open>now\<close> is \<open>time.time()\<close> and \<open>now_iso\<close> the clock as an ISO string.
\<close>

definition fetch_and_store ::
    "'a doc \<Rightarrow> string \<Rightarrow> int \<Rightarrow> rat \<Rightarrow> string \<Rightarrow> string \<Rightarrow> 'a search_cache
       \<Rightarrow> 'a response \<times> 'a search_cache" where
  "fetch_and_store api_result query limit now now_iso cache_key cache =
     (case map_of api_result ''error'' of
        Some e \<Rightarrow>
          (Respond 503
             [(''success'', JBool False), (''query'', JStr query), (''error'', e),
              (''fetched_at'', JStr now_iso)],
           cache)
      | None \<Rightarrow>
          (case map_of api_result ''tweets'' of
             None \<Rightarrow> (Uncaught ''KeyError'', cache)
           | Some (JList tweets) \<Rightarrow>
               let tweets = slice_to limit tweets;
                   response =
                     [(''success'', JBool True),
                      (''query'', JStr query),
                      (''count'', JInt (int (length tweets))),
                      (''tweets'', JList tweets),
                      (''fetched_at'', JStr now_iso),
                      (''cached'', JBool False)]
               in (Respond 200 response, twitter_cache_set cache_key response now cache)
           | Some v \<Rightarrow> (Uncaught ''TypeError'', cache)))"

text \<open>
  \<open>lower\<close> and \<open>strip\<close> are \<open>str.lower\<close> and \<open>str.strip\<close>, and \<open>md5\<close> stands for
  \<open>hashlib.md5(..).hexdigest()\<close>. On a hit the handler sets \<open>cached\<close> in the dict the
  cache holds, so the cache entry changes with it.
\<close>

definition get_twitter_for_trend ::
    "(string \<Rightarrow> string) \<Rightarrow> (string \<Rightarrow> string) \<Rightarrow> (string \<Rightarrow> string) \<Rightarrow> 'a doc \<Rightarrow> string \<Rightarrow> int
       \<Rightarrow> rat \<Rightarrow> string \<Rightarrow> 'a search_cache \<Rightarrow> 'a response \<times> 'a search_cache" where
  "get_twitter_for_trend lower strip md5 api_result query_arg limit_arg now now_iso cache =
     (let query = strip query_arg in
      if query = [] then
        (Respond 400 [(''success'', JBool False), (''error'', JStr ''query parameter is required'')],
         cache)
      else
        let limit = min limit_arg 20;
            cache_key = md5 (lower query)
        in case twitter_cache_get cache_key now cache of
             (Some cached, cache) \<Rightarrow>
               if cached \<noteq> [] then
                 (let cached = AList.update ''cached'' (JBool True) cached
                  in (Respond 200 cached,
                      (case cache cache_key of
                         None \<Rightarrow> cache
                       | Some (data, expires) \<Rightarrow> cache(cache_key \<mapsto> (cached, expires)))))
               else fetch_and_store api_result query limit now now_iso cache_key cache
           | (None, cache) \<Rightarrow> fetch_and_store api_result query limit now now_iso cache_key cache)"

section \<open>Properties of the hashtag ranking\<close>

subsection \<open>Exact cases of the float operations\<close>

lemma round_half_even_of_int: "round_half_even (of_int k) = k"
  by (simp add: round_half_even_def)

lemma fl_0: "fl 0 = 0"
  by (simp add: fl_def)

lemma fl_exact:
  assumes "x \<noteq> 0" and "\<bar>x\<bar> / 2 powi (ilog2 \<bar>x\<bar> - 52) = of_int k"
  shows "fl x = x"
proof -
  have "fl x = sgn x * (\<bar>x\<bar> / 2 powi (ilog2 \<bar>x\<bar> - 52)) * 2 powi (ilog2 \<bar>x\<bar> - 52)"
    using assms by (simp add: fl_def Let_def round_half_even_of_int)
  also have "\<dots> = sgn x * \<bar>x\<bar>"
    by simp
  finally show ?thesis by (simp add: sgn_mult_abs)
qed

lemma ilog2_of_int: "0 < n \<Longrightarrow> ilog2 (of_int n) = bitlen n - 1"
  by (simp add: ilog2_def)

text \<open>An integer below \<open>2^53\<close> in magnitude is a float.\<close>

lemma fl_of_int:
  assumes "\<bar>n\<bar> < 2 ^ 53"
  shows "fl (of_int n) = of_int n"
proof (cases "n = 0")
  case True
  then show ?thesis by (simp add: fl_0)
next
  case False
  define m where "m = \<bar>n\<bar>"
  have m: "0 < m" "m < 2 ^ 53" using False assms by (simp_all add: m_def)
  have b: "bitlen m \<le> 53"
    using m by (simp add: bitlen_le_iff_power)
  define j where "j = nat (53 - bitlen m)"
  have e: "ilog2 (of_int m) - 52 = - int j"
    using b m by (simp add: ilog2_of_int j_def)
  have "(of_int m :: rat) / 2 powi (- int j) = of_int (m * 2 ^ j)"
    by (simp add: power_int_minus field_simps)
  then have "\<bar>of_int n :: rat\<bar> / 2 powi (ilog2 \<bar>of_int n\<bar> - 52) = of_int (m * 2 ^ j)"
    using e by (simp add: m_def)
  moreover have "(of_int n :: rat) \<noteq> 0" using False by simp
  ultimately show ?thesis by (rule fl_exact [rotated])
qed

lemma py_int_of_int: "py_int (of_int k) = k"
  by (simp add: py_int_def)

text \<open>When the count divides the total, quotient and product are computed exactly.\<close>

lemma exact_when_divisible:
  assumes m: "0 < m" and d: "m dvd t" and t: "\<bar>t\<bar> < 2 ^ 53"
  shows "py_int (py_truediv t m) = t div m"
    and "py_int (py_int_times_float m (py_truediv t m)) = t"
proof -
  from d obtain q where q: "t = m * q" by (auto simp: dvd_def)
  have aq: "\<bar>q\<bar> \<le> \<bar>t\<bar>"
  proof -
    have "1 * \<bar>q\<bar> \<le> m * \<bar>q\<bar>" using m by (intro mult_right_mono) simp_all
    then show ?thesis using m q by (simp add: abs_mult)
  qed
  have td: "(of_int t :: rat) / of_int m = of_int q"
    using m q by simp
  have fq: "py_truediv t m = of_int q"
    using aq t by (simp add: py_truediv_def td fl_of_int)
  show "py_int (py_truediv t m) = t div m"
    unfolding fq py_int_of_int using m q by simp
  show "py_int (py_int_times_float m (py_truediv t m)) = t"
  proof (cases "q = 0")
    case True
    then have "py_truediv t m = 0" "t = 0" using q fq by simp_all
    then show ?thesis by (simp add: py_int_times_float_def fl_0 py_int_def)
  next
    case False
    then have "\<bar>m\<bar> \<le> \<bar>t\<bar>"
    proof -
      have "\<bar>m\<bar> * 1 \<le> \<bar>m\<bar> * \<bar>q\<bar>" using False by (intro mult_left_mono) simp_all
      then show ?thesis using q by (simp add: abs_mult)
    qed
    then have "fl (of_int m) = of_int m" using t by (simp add: fl_of_int)
    moreover have "(of_int m :: rat) * of_int q = of_int t" using q by simp
    ultimately show ?thesis
      using t by (simp add: fq py_int_times_float_def fl_of_int py_int_of_int)
  qed
qed

subsection \<open>Every entry of \<open>hashtag_stats\<close> has been counted\<close>

lemma set_update_subset: "set (AList.update k v al) \<subseteq> insert (k, v) (set al)"
  by (induction al) auto

lemma counted_score_tag:
  assumes h: "\<forall>p \<in> set hs. 0 < st_count (snd p)"
  shows "\<forall>p \<in> set (score_tag eng hs tag). 0 < st_count (snd p)"
proof
  fix p
  assume p: "p \<in> set (score_tag eng hs tag)"
  define s where "s = (case map_of hs tag of
       None \<Rightarrow> \<lparr>st_count = 0, st_total_engagement = 0, st_avg_engagement = 0\<rparr>
     | Some s \<Rightarrow> s)"
  define v where "v = s\<lparr>st_count := st_count s + 1,
       st_total_engagement := st_total_engagement s + eng\<rparr>"
  have "0 \<le> st_count s"
  proof (cases "map_of hs tag")
    case None
    then show ?thesis by (simp add: s_def)
  next
    case (Some s')
    then have "(tag, s') \<in> set hs" by (rule map_of_SomeD)
    with h have "0 < st_count s'" by auto
    with Some show ?thesis by (simp add: s_def)
  qed
  then have v: "0 < st_count v" by (simp add: v_def)
  have "score_tag eng hs tag = AList.update tag v hs"
    by (simp add: score_tag_def Let_def s_def v_def)
  with p set_update_subset [of tag v hs] have "p = (tag, v) \<or> p \<in> set hs" by auto
  with v h show "0 < st_count (snd p)" by auto
qed

lemma counted_foldl_score_tag:
  "\<forall>p \<in> set hs. 0 < st_count (snd p) \<Longrightarrow>
     \<forall>p \<in> set (foldl (score_tag eng) hs tags). 0 < st_count (snd p)"
proof (induction tags arbitrary: hs)
  case Nil
  then show ?case by simp
next
  case (Cons tag tags)
  from Cons.IH [OF counted_score_tag [OF Cons.prems]] show ?case by simp
qed

lemma counted_foldl_score_tweet:
  "\<forall>p \<in> set hs. 0 < st_count (snd p) \<Longrightarrow>
     \<forall>p \<in> set (foldl (score_tweet lower) hs tweets). 0 < st_count (snd p)"
proof (induction tweets arbitrary: hs)
  case Nil
  then show ?case by simp
next
  case (Cons tw tweets)
  have "\<forall>p \<in> set (score_tweet lower hs tw). 0 < st_count (snd p)"
    unfolding score_tweet_def Let_def by (rule counted_foldl_score_tag [OF Cons.prems])
  from Cons.IH [OF this] show ?case by simp
qed

lemma ranked_entry_fields:
  assumes "0 < st_count s"
  shows "mentions (ranked_entry (tag, set_average s)) = st_count s"
    and "total_engagement (ranked_entry (tag, set_average s)) = st_total_engagement s"
    and "avg_engagement (ranked_entry (tag, set_average s))
           = py_int (py_truediv (st_total_engagement s) (st_count s))"
    and "velocity_score (ranked_entry (tag, set_average s))
           = py_int (py_int_times_float (st_count s)
               (py_truediv (st_total_engagement s) (st_count s)))"
  using assms by (simp_all add: ranked_entry_def set_average_def Let_def)

lemma extract_hashtags_entry:
  assumes "r \<in> set (extract_hashtags lower d)"
  obtains tag s where "0 < st_count s" and "r = ranked_entry (tag, set_average s)"
proof -
  from assms obtain tweets where d: "d = Body (Some tweets)"
    by (auto simp: extract_hashtags_def split: tweets_data.splits option.splits)
  have c: "\<forall>p \<in> set (foldl (score_tweet lower) [] tweets). 0 < st_count (snd p)"
    by (rule counted_foldl_score_tweet) simp
  from assms d obtain tag s where "(tag, s) \<in> set (foldl (score_tweet lower) [] tweets)"
      and "r = ranked_entry (tag, set_average s)"
    by (auto simp: extract_hashtags_def sort_desc_def Let_def)
  moreover from this c have "0 < st_count s"
    by auto
  ultimately show thesis using that by blast
qed

subsection \<open>The spec's two-post scenario, and a rounding case\<close>

text \<open>
  Two posts: \<open>{likes: 10, retweets: 5, replies: 2}\<close> tagged \<open>A\<close>, and
  \<open>{likes: 1, retweets: 0, replies: 0}\<close> tagged \<open>a\<close> and \<open>b\<close>.
\<close>

lemma scenario_ranked:
  "extract_hashtags ascii_lower (Body (Some
     [\<lparr>entities_hashtags = Some [''A''],
       public_metrics = Some \<lparr>like_count = Some 10, retweet_count = Some 5, reply_count = Some 2\<rparr>\<rparr>,
      \<lparr>entities_hashtags = Some [''a'', ''b''],
       public_metrics = Some \<lparr>like_count = Some 1, retweet_count = Some 0, reply_count = Some 0\<rparr>\<rparr>]))
   = [\<lparr>hashtag = ''#a'', mentions = 2, total_engagement = 23, avg_engagement = 11, velocity_score = 23\<rparr>,
      \<lparr>hashtag = ''#b'', mentions = 1, total_engagement = 1, avg_engagement = 1, velocity_score = 1\<rparr>]"
  by code_simp

text \<open>
  Forty-nine posts with the same tag, one of them with a single like: \<open>1 / 49\<close> rounds
  down, \<open>49 * (1 / 49)\<close> is the float just below 1, and \<open>int\<close> makes it 0. So the
  velocity score is not the total engagement in general.
\<close>

lemma velocity_rounds_below_total:
  "extract_hashtags ascii_lower (Body (Some
     (\<lparr>entities_hashtags = Some [''x''],
       public_metrics = Some \<lparr>like_count = Some 1, retweet_count = None, reply_count = None\<rparr>\<rparr>
      # replicate 48 \<lparr>entities_hashtags = Some [''x''], public_metrics = None\<rparr>)))
   = [\<lparr>hashtag = ''#x'', mentions = 49, total_engagement = 1, avg_engagement = 0, velocity_score = 0\<rparr>]"
  by code_simp

subsection \<open>C1: the fields of a ranked hashtag record\<close>

text \<open>
  C1 says that every record of \<open>extract_hashtags\<close> has
  \<open>velocity_score = mentions * avg_engagement\<close> and
  \<open>avg_engagement = total_engagement / mentions\<close>. The records hold the integer parts of
  the average and of the velocity, taken separately: in the spec's scenario \<open>#a\<close> has
  \<open>mentions = 2\<close>, \<open>avg_engagement = 11\<close> (from 11.5) and \<open>velocity_score = 23\<close>, and 23 is
  not 2 times 11.
\<close>

theorem velocity_is_not_mentions_times_average:
  "extract_hashtags ascii_lower (Body (Some
     [\<lparr>entities_hashtags = Some [''A''],
       public_metrics = Some \<lparr>like_count = Some 10, retweet_count = Some 5, reply_count = Some 2\<rparr>\<rparr>,
      \<lparr>entities_hashtags = Some [''a'', ''b''],
       public_metrics = Some \<lparr>like_count = Some 1, retweet_count = Some 0, reply_count = Some 0\<rparr>\<rparr>]))
   = [\<lparr>hashtag = ''#a'', mentions = 2, total_engagement = 23, avg_engagement = 11, velocity_score = 23\<rparr>,
      \<lparr>hashtag = ''#b'', mentions = 1, total_engagement = 1, avg_engagement = 1, velocity_score = 1\<rparr>]
   \<and> velocity_score \<lparr>hashtag = ''#a'', mentions = 2, total_engagement = 23, avg_engagement = 11, velocity_score = 23\<rparr>
       \<noteq> mentions \<lparr>hashtag = ''#a'', mentions = 2, total_engagement = 23, avg_engagement = 11, velocity_score = 23\<rparr>
         * avg_engagement \<lparr>hashtag = ''#a'', mentions = 2, total_engagement = 23, avg_engagement = 11, velocity_score = 23\<rparr>"
  using scenario_ranked by simp

text \<open>
  C1 as amended: every record has \<open>mentions > 0\<close>; \<open>avg_engagement\<close> is the integer part of
  the float \<open>total_engagement / mentions\<close>; \<open>velocity_score\<close> is the integer part of the float
  \<open>mentions * (total_engagement / mentions)\<close>, computed from the average before it is
  truncated; and when \<open>mentions\<close> divides \<open>total_engagement\<close> (below \<open>2^53\<close> in magnitude) the
  three fields do satisfy \<open>avg_engagement = total_engagement div mentions\<close> and
  \<open>velocity_score = total_engagement = mentions * avg_engagement\<close>.
\<close>

theorem extract_hashtags_fields:
  assumes "r \<in> set (extract_hashtags lower d)"
  shows "0 < mentions r
       \<and> avg_engagement r = py_int (py_truediv (total_engagement r) (mentions r))
       \<and> velocity_score r
           = py_int (py_int_times_float (mentions r) (py_truediv (total_engagement r) (mentions r)))
       \<and> (mentions r dvd total_engagement r \<and> \<bar>total_engagement r\<bar> < 2 ^ 53 \<longrightarrow>
            avg_engagement r = total_engagement r div mentions r
            \<and> velocity_score r = total_engagement r
            \<and> velocity_score r = mentions r * avg_engagement r)"
proof -
  from assms obtain tag s where s: "0 < st_count s" and r: "r = ranked_entry (tag, set_average s)"
    by (rule extract_hashtags_entry)
  have f: "mentions r = st_count s" "total_engagement r = st_total_engagement s"
    "avg_engagement r = py_int (py_truediv (st_total_engagement s) (st_count s))"
    "velocity_score r = py_int (py_int_times_float (st_count s)
               (py_truediv (st_total_engagement s) (st_count s)))"
    unfolding r by (rule ranked_entry_fields [OF s])+
  show ?thesis
    using s exact_when_divisible [of "st_count s" "st_total_engagement s"]
    by (auto simp: f)
qed

theorem extract_hashtags_fields_witness:
  "\<lparr>hashtag = ''#b'', mentions = 1, total_engagement = 1, avg_engagement = 1, velocity_score = 1\<rparr>
     \<in> set (extract_hashtags ascii_lower (Body (Some
       [\<lparr>entities_hashtags = Some [''A''],
         public_metrics = Some \<lparr>like_count = Some 10, retweet_count = Some 5, reply_count = Some 2\<rparr>\<rparr>,
        \<lparr>entities_hashtags = Some [''a'', ''b''],
         public_metrics = Some \<lparr>like_count = Some 1, retweet_count = Some 0, reply_count = Some 0\<rparr>\<rparr>])))
   \<and> (1::int) dvd 1 \<and> \<bar>1::int\<bar> < 2 ^ 53
   \<and> (1::int) = py_int (py_truediv 1 1)
   \<and> (1::int) = py_int (py_int_times_float 1 (py_truediv 1 1))"
proof -
  let ?b = "\<lparr>hashtag = ''#b'', mentions = 1, total_engagement = 1, avg_engagement = 1, velocity_score = 1\<rparr>"
  let ?d = "Body (Some
       [\<lparr>entities_hashtags = Some [''A''],
         public_metrics = Some \<lparr>like_count = Some 10, retweet_count = Some 5, reply_count = Some 2\<rparr>\<rparr>,
        \<lparr>entities_hashtags = Some [''a'', ''b''],
         public_metrics = Some \<lparr>like_count = Some 1, retweet_count = Some 0, reply_count = Some 0\<rparr>\<rparr>])"
  have mem: "?b \<in> set (extract_hashtags ascii_lower ?d)"
    using scenario_ranked by simp
  from extract_hashtags_fields [OF mem] mem show ?thesis by simp
qed

section \<open>Properties of find_trending_topics\<close>

subsection \<open>The keys and the entries of \<open>combined\<close>\<close>

lemma keys_combine_item:
  "fst ` set (combine_item combined item) = insert (hashtag item) (fst ` set combined)"
  by (simp add: combine_item_def Let_def dom_update)

lemma distinct_combine_item:
  "distinct (map fst combined) \<Longrightarrow> distinct (map fst (combine_item combined item))"
  by (simp add: combine_item_def Let_def distinct_update)

lemma foldl_combine_item_keys:
  "distinct (map fst acc) \<Longrightarrow>
     distinct (map fst (foldl combine_item acc items))
     \<and> fst ` set (foldl combine_item acc items) = fst ` set acc \<union> hashtag ` set items"
proof (induction items arbitrary: acc)
  case Nil
  then show ?case by simp
next
  case (Cons item items)
  from Cons.IH [OF distinct_combine_item [OF Cons.prems]]
  show ?case by (auto simp: keys_combine_item)
qed

lemma distinct_combine: "distinct (map fst (combine items))"
  using foldl_combine_item_keys [of "[]" items] by (simp add: combine_def)



lemma map_of_combine_item:
  "map_of (combine_item combined item) tag =
     (if hashtag item = tag
      then Some \<lparr>c_mentions = c_mentions (combined_entry combined tag) + mentions item,
                 c_total_engagement =
                   c_total_engagement (combined_entry combined tag) + total_engagement item,
                 c_velocity_score =
                   c_velocity_score (combined_entry combined tag) + velocity_score item\<rparr>
      else map_of combined tag)"
  by (simp add: combine_item_def Let_def update_conv')

text \<open>The entry of a tag after the loop: what the accumulator held, plus the sums.\<close>

lemma map_of_foldl_combine_item:
  "map_of (foldl combine_item acc items) tag =
     (if tag \<in> hashtag ` set items
      then Some \<lparr>c_mentions = c_mentions (combined_entry acc tag)
                     + sum_list (map mentions (filter (\<lambda>i. hashtag i = tag) items)),
                 c_total_engagement = c_total_engagement (combined_entry acc tag)
                     + sum_list (map total_engagement (filter (\<lambda>i. hashtag i = tag) items)),
                 c_velocity_score = c_velocity_score (combined_entry acc tag)
                     + sum_list (map velocity_score (filter (\<lambda>i. hashtag i = tag) items))\<rparr>
      else map_of acc tag)"
proof (induction items arbitrary: acc)
  case Nil
  then show ?case by simp
next
  case (Cons item items)
  show ?case
  proof (cases "hashtag item = tag")
    case True
    then have e: "combined_entry (combine_item acc item) tag =
        \<lparr>c_mentions = c_mentions (combined_entry acc tag) + mentions item,
         c_total_engagement = c_total_engagement (combined_entry acc tag) + total_engagement item,
         c_velocity_score = c_velocity_score (combined_entry acc tag) + velocity_score item\<rparr>"
      by (simp add: combined_entry_def [of "combine_item acc item"] map_of_combine_item)
    show ?thesis
    proof (cases "tag \<in> hashtag ` set items")
      case True
      with \<open>hashtag item = tag\<close> show ?thesis
        by (simp add: Cons.IH e)
    next
      case False
      then have "filter (\<lambda>i. hashtag i = tag) items = []"
        by (auto simp: filter_empty_conv)
      with False \<open>hashtag item = tag\<close> show ?thesis
        by (simp add: Cons.IH map_of_combine_item)
    qed
  next
    case False
    then have "combined_entry (combine_item acc item) tag = combined_entry acc tag"
      by (simp add: combined_entry_def map_of_combine_item)
    with False show ?thesis
      by (simp add: Cons.IH map_of_combine_item)
  qed
qed

lemma sum_list_filter_mset:
  "sum_list (map f (filter P xs)) = sum_mset (image_mset f (filter_mset P (mset xs)))"
proof -
  have "sum_list (map f (filter P xs)) = sum_mset (mset (map f (filter P xs)))"
    by (simp only: sum_mset_sum_list)
  then show ?thesis by simp
qed

lemma map_of_combine:
  "map_of (combine items) tag =
     (if tag \<in> hashtag ` set_mset (mset items)
      then Some \<lparr>c_mentions =
                   sum_mset (image_mset mentions (filter_mset (\<lambda>i. hashtag i = tag) (mset items))),
                 c_total_engagement =
                   sum_mset (image_mset total_engagement
                     (filter_mset (\<lambda>i. hashtag i = tag) (mset items))),
                 c_velocity_score =
                   sum_mset (image_mset velocity_score
                     (filter_mset (\<lambda>i. hashtag i = tag) (mset items)))\<rparr>
      else None)"
  unfolding combine_def map_of_foldl_combine_item sum_list_filter_mset
  by (simp add: combined_entry_def)

lemma combine_mset_cong:
  assumes "mset items = mset items'"
  shows "map_of (combine items) = map_of (combine items')"
  by (rule ext) (simp only: map_of_combine assms)

lemma set_distinct_alist:
  assumes "distinct (map fst al)"
  shows "set al = {p. map_of al (fst p) = Some (snd p)}"
  using assms by (auto dest: map_of_SomeD)

lemma combine_mset_same_entries:
  assumes "mset items = mset items'"
  shows "mset (combine items) = mset (combine items')"
proof -
  have d: "distinct (combine items)" "distinct (combine items')"
    using distinct_combine [of items] distinct_combine [of items']
    by (simp_all add: distinct_map)
  have "set (combine items) = set (combine items')"
    unfolding set_distinct_alist [OF distinct_combine] combine_mset_cong [OF assms] ..
  then show ?thesis
    using d by (simp add: set_eq_iff_mset_eq_distinct)
qed

lemma mset_concat_cong:
  assumes "mset xss = mset yss"
  shows "mset (concat xss) = mset (concat yss)"
proof -
  have "mset (concat zss) = sum_mset (image_mset mset (mset zss))" for zss :: "'a list list"
    by (induction zss) simp_all
  then show ?thesis using assms by simp
qed

subsection \<open>The length and the ranks of \<open>final_trends\<close>\<close>


lemma ranks_enumerate:
  assumes "\<And>p. rank (mk p) = int (fst p) + 1"
  shows "map rank (map mk (List.enumerate 0 xs)) = map (\<lambda>i. int i + 1) [0..<length xs]"
proof -
  have "map rank (map mk ys) = map (\<lambda>i. int i + 1) (map fst ys)" for ys
    by (simp add: assms)
  from this [of "List.enumerate 0 xs"] show ?thesis
    by (simp only: map_fst_enumerate add_0)
qed

lemma ranks_final_trends:
  "map t_rank (final_trends lower replies now)
     = map (\<lambda>i. int i + 1) [0..<length (final_trends lower replies now)]"
proof -
  have r: "t_rank (add_rank now p) = int (fst p) + 1" for p
    by (cases p) (simp add: add_rank_def)
  have l: "length (final_trends lower replies now)
     = length (sort_desc (\<lambda>p. c_velocity_score (snd p)) (combine (all_hashtags lower replies)))"
    by (simp add: final_trends_def)
  show ?thesis
    unfolding l unfolding final_trends_def by (rule ranks_enumerate [of t_rank "add_rank now", OF r])
qed

lemma ranks_take:
  assumes "map f xs = map g [0..<length xs]"
  shows "map f (take n xs) = map g [0..<length (take n xs)]"
proof -
  have "map f (take n xs) = take n (map f xs)" by (simp add: take_map)
  also have "\<dots> = map g (take n [0..<length xs])" using assms by (simp add: take_map)
  also have "take n [0..<length xs] = [0..<min n (length xs)]" by (simp add: take_upt min_def)
  finally show ?thesis by (simp add: min.commute)
qed

lemma all_hashtags_skips_errors:
  "all_hashtags lower (map search_recent_tweets (filter (\<lambda>out. \<not> call_errored out) outcomes))
     = all_hashtags lower (map search_recent_tweets outcomes)"
proof (induction outcomes)
  case Nil
  then show ?case by simp
next
  case (Cons out outcomes)
  have "call_errored out \<Longrightarrow> \<not> has_data (search_recent_tweets out)"
    by (auto simp: call_errored_def has_data_def split: tweets_data.splits)
  with Cons show ?case by (simp add: all_hashtags_def)
qed

lemma all_hashtags_all_errors:
  "list_all call_errored outcomes \<Longrightarrow> all_hashtags lower (map search_recent_tweets outcomes) = []"
proof (induction outcomes)
  case Nil
  then show ?case by (simp add: all_hashtags_def)
next
  case (Cons out outcomes)
  then have "\<not> has_data (search_recent_tweets out)"
    by (auto simp: call_errored_def has_data_def split: tweets_data.splits)
  with Cons show ?case by (simp add: all_hashtags_def)
qed

text \<open>A reply without \<open>data\<close>, error or not, adds nothing to the result.\<close>

lemma find_trending_topics_skips_no_data:
  "find_trending_topics lower (filter (\<lambda>out. has_data (search_recent_tweets out)) outcomes) now
     = find_trending_topics lower outcomes now"
proof -
  have "all_hashtags lower
          (map search_recent_tweets (filter (\<lambda>out. has_data (search_recent_tweets out)) outcomes))
        = all_hashtags lower (map search_recent_tweets outcomes)"
    by (induction outcomes) (simp_all add: all_hashtags_def)
  then show ?thesis
    by (simp add: find_trending_topics_def final_trends_def)
qed

lemma upto_from_1: "map (\<lambda>i. int i + 1) [0..<n] = [1..int n]"
proof (induction n)
  case 0
  then show ?case by simp
next
  case (Suc n)
  have "[1..int (Suc n)] = [1..int n] @ [int n + 1]"
    using upto_rec2 [of 1 "int n + 1"] by (simp add: add.commute)
  with Suc show ?case by simp
qed

subsection \<open>C2: failed categories\<close>

text \<open>
  C2 says that the multi-category fetch fails exactly when every category's call errors.
  \<open>find_trending_topics\<close> has no failure result: with a raised exception in one category
  and an HTTP 429 in the other, it returns \<open>success: True\<close> with no trends.
\<close>

theorem all_categories_error_yet_success:
  "list_all call_errored [Raises ''timed out'', Reply 429 ''Too Many Requests'' None]
   \<and> find_trending_topics ascii_lower [Raises ''timed out'', Reply 429 ''Too Many Requests'' None]
        ''2026-01-01T00:00:00''
     = [(''success'', JBool True), (''count'', JInt 0), (''trends'', JList []),
        (''fetched_at'', JStr ''2026-01-01T00:00:00'')]"
  by code_simp

text \<open>
  C2 as amended: the fetch returns a success result on every run; the categories whose
  call errored are skipped, that is, the result is the one of the other categories alone;
  and when every category's call errors the result is still a success, with count 0 and
  an empty list of trends.
\<close>

theorem find_trending_topics_never_fails:
  "map_of (find_trending_topics lower outcomes now) ''success'' = Some (JBool True)
   \<and> find_trending_topics lower outcomes now
       = find_trending_topics lower (filter (\<lambda>out. \<not> call_errored out) outcomes) now
   \<and> (list_all call_errored outcomes \<longrightarrow>
        find_trending_topics lower outcomes now
          = [(''success'', JBool True), (''count'', JInt 0), (''trends'', JList []),
             (''fetched_at'', JStr now)])"
proof -
  have 1: "map_of (find_trending_topics lower outcomes now) ''success'' = Some (JBool True)"
    by (simp add: find_trending_topics_def Let_def)
  have 2: "find_trending_topics lower outcomes now
       = find_trending_topics lower (filter (\<lambda>out. \<not> call_errored out) outcomes) now"
    by (simp add: find_trending_topics_def final_trends_def all_hashtags_skips_errors)
  have 3: "find_trending_topics lower outcomes now
          = [(''success'', JBool True), (''count'', JInt 0), (''trends'', JList []),
             (''fetched_at'', JStr now)]" if "list_all call_errored outcomes"
    using all_hashtags_all_errors [OF that]
    by (simp add: find_trending_topics_def final_trends_def combine_def sort_desc_def)
  from 1 2 3 show ?thesis by blast
qed

theorem find_trending_topics_never_fails_witness:
  "list_all call_errored [Reply 503 ''Service Unavailable'' None]
   \<and> map_of (find_trending_topics ascii_lower [Reply 503 ''Service Unavailable'' None] ''t'') ''success''
       = Some (JBool True)
   \<and> map_of (find_trending_topics ascii_lower [Reply 503 ''Service Unavailable'' None] ''t'') ''count''
       = Some (JInt 0)"
proof -
  have h: "list_all call_errored [Reply 503 ''Service Unavailable'' None]"
    by (simp add: call_errored_def search_recent_tweets_def)
  from find_trending_topics_never_fails
    [of ascii_lower "[Reply 503 ''Service Unavailable'' None]" "''t''"]
  have "find_trending_topics ascii_lower [Reply 503 ''Service Unavailable'' None] ''t''
          = [(''success'', JBool True), (''count'', JInt 0), (''trends'', JList []),
             (''fetched_at'', JStr ''t'')]"
    using h by blast
  with h show ?thesis by simp
qed

subsection \<open>C9: \<open>count\<close> is taken before the list is cut\<close>



subsection \<open>C7: the order of the categories\<close>

text \<open>
  C7: the merge sums per tag, so the totals do not depend on the order of the categories
  (first and second part: the same map from tag to totals, the same entries in
  \<open>combined\<close>), nor on how the ranked hashtags are grouped into categories (third part).
  What may differ is the order of the entries of \<open>combined\<close>, which decides between
  equal scores in the stable sort.
\<close>

theorem merge_is_order_independent:
  assumes "mset xss = mset yss"
  shows "map_of (combine (concat xss)) = map_of (combine (concat yss))
       \<and> mset (combine (concat xss)) = mset (combine (concat yss))
       \<and> combine (concat (map concat zsss)) = combine (concat (concat zsss))"
proof -
  have "concat (map concat zsss) = concat (concat zsss)"
    by (induction zsss) simp_all
  then show ?thesis
    using combine_mset_cong [OF mset_concat_cong [OF assms]]
      combine_mset_same_entries [OF mset_concat_cong [OF assms]]
    by simp
qed

theorem merge_is_order_independent_witness:
  "mset [[\<lparr>hashtag = ''#a'', mentions = 2, total_engagement = 23, avg_engagement = 11, velocity_score = 23\<rparr>],
         [\<lparr>hashtag = ''#b'', mentions = 1, total_engagement = 1, avg_engagement = 1, velocity_score = 1\<rparr>,
          \<lparr>hashtag = ''#a'', mentions = 1, total_engagement = 4, avg_engagement = 4, velocity_score = 4\<rparr>]]
   = mset [[\<lparr>hashtag = ''#b'', mentions = 1, total_engagement = 1, avg_engagement = 1, velocity_score = 1\<rparr>,
            \<lparr>hashtag = ''#a'', mentions = 1, total_engagement = 4, avg_engagement = 4, velocity_score = 4\<rparr>],
           [\<lparr>hashtag = ''#a'', mentions = 2, total_engagement = 23, avg_engagement = 11, velocity_score = 23\<rparr>]]
   \<and> map_of (combine (concat
        [[\<lparr>hashtag = ''#a'', mentions = 2, total_engagement = 23, avg_engagement = 11, velocity_score = 23\<rparr>],
         [\<lparr>hashtag = ''#b'', mentions = 1, total_engagement = 1, avg_engagement = 1, velocity_score = 1\<rparr>,
          \<lparr>hashtag = ''#a'', mentions = 1, total_engagement = 4, avg_engagement = 4, velocity_score = 4\<rparr>]]))
     = map_of (combine (concat
        [[\<lparr>hashtag = ''#b'', mentions = 1, total_engagement = 1, avg_engagement = 1, velocity_score = 1\<rparr>,
          \<lparr>hashtag = ''#a'', mentions = 1, total_engagement = 4, avg_engagement = 4, velocity_score = 4\<rparr>],
         [\<lparr>hashtag = ''#a'', mentions = 2, total_engagement = 23, avg_engagement = 11, velocity_score = 23\<rparr>]]))
   \<and> combine (concat
        [[\<lparr>hashtag = ''#a'', mentions = 2, total_engagement = 23, avg_engagement = 11, velocity_score = 23\<rparr>],
         [\<lparr>hashtag = ''#b'', mentions = 1, total_engagement = 1, avg_engagement = 1, velocity_score = 1\<rparr>,
          \<lparr>hashtag = ''#a'', mentions = 1, total_engagement = 4, avg_engagement = 4, velocity_score = 4\<rparr>]])
     = [(''#a'', \<lparr>c_mentions = 3, c_total_engagement = 27, c_velocity_score = 27\<rparr>),
        (''#b'', \<lparr>c_mentions = 1, c_total_engagement = 1, c_velocity_score = 1\<rparr>)]"
proof -
  let ?a = "\<lparr>hashtag = ''#a'', mentions = 2, total_engagement = 23, avg_engagement = 11, velocity_score = 23\<rparr>"
  let ?b = "\<lparr>hashtag = ''#b'', mentions = 1, total_engagement = 1, avg_engagement = 1, velocity_score = 1\<rparr>"
  let ?c = "\<lparr>hashtag = ''#a'', mentions = 1, total_engagement = 4, avg_engagement = 4, velocity_score = 4\<rparr>"
  have p: "mset [[?a], [?b, ?c]] = mset [[?b, ?c], [?a]]"
    by (simp add: add.commute)
  have e: "combine (concat [[?a], [?b, ?c]])
     = [(''#a'', \<lparr>c_mentions = 3, c_total_engagement = 27, c_velocity_score = 27\<rparr>),
        (''#b'', \<lparr>c_mentions = 1, c_total_engagement = 1, c_velocity_score = 1\<rparr>)]"
    by (simp add: combine_def combine_item_def combined_entry_def)
  from merge_is_order_independent [OF p] p e show ?thesis by blast
qed

section \<open>Properties of the collectors' results\<close>

lemma ranks_fetch_trends:
  "map r_rank (map (trend_data geo now) (List.enumerate 0 items))
     = map (\<lambda>i. int i + 1) [0..<length items]"
proof -
  have r: "r_rank (trend_data geo now p) = int (fst p) + 1" for p
    by (cases p) (simp add: trend_data_def)
  show ?thesis by (rule ranks_enumerate [of r_rank "trend_data geo now", OF r])
qed

lemma fetch_trends_trends:
  assumes "map_of (fetch_trends outcome geo now) ''trends'' = Some (JList ts)"
  obtains items where "ts = map (trend_data geo now) (List.enumerate 0 items)"
  using assms
  by (auto simp: fetch_trends_def Let_def split: feed_outcome.splits if_splits sum.splits)

subsection \<open>C6: ranks are 1 to N\<close>

text \<open>
  C6: in the list of trends that \<open>find_trending_topics\<close> returns, and in the one that
  \<open>fetch_trends\<close> returns, the ranks are \<open>1, 2, .., N\<close> in list order, \<open>N\<close> the length of
  the list.
\<close>

theorem ranks_are_contiguous:
  "(\<forall>ts. map_of (find_trending_topics lower outcomes now) ''trends'' = Some (JList ts) \<longrightarrow>
        map t_rank ts = [1..int (length ts)])
   \<and> (\<forall>ts. map_of (fetch_trends outcome geo now) ''trends'' = Some (JList ts) \<longrightarrow>
        map r_rank ts = [1..int (length ts)])"
proof (intro conjI allI impI)
  fix ts
  assume "map_of (find_trending_topics lower outcomes now) ''trends'' = Some (JList ts)"
  then have ts: "ts = take 20 (final_trends lower (map search_recent_tweets outcomes) now)"
    by (simp add: find_trending_topics_def Let_def)
  show "map t_rank ts = [1..int (length ts)]"
    unfolding ts upto_from_1 [symmetric]
    by (rule ranks_take [OF ranks_final_trends])
next
  fix ts
  assume "map_of (fetch_trends outcome geo now) ''trends'' = Some (JList ts)"
  then obtain items where ts: "ts = map (trend_data geo now) (List.enumerate 0 items)"
    by (rule fetch_trends_trends)
  show "map r_rank ts = [1..int (length ts)]"
    unfolding ts upto_from_1 [symmetric] by (simp only: ranks_fetch_trends length_map length_enumerate)
qed

theorem ranks_are_contiguous_witness:
  "map_of (find_trending_topics ascii_lower
      [Reply 200 [] (Some [\<lparr>entities_hashtags = Some [''b'', ''a''], public_metrics = None\<rparr>])] ''t'')
      ''trends''
     = Some (JList
        [\<lparr>t_hashtag = ''#b'', t_mentions = 1, t_total_engagement = 0, t_velocity_score = 0,
          t_rank = 1, t_source = ''twitter_search'', t_timestamp = ''t'', t_topic = None\<rparr>,
         \<lparr>t_hashtag = ''#a'', t_mentions = 1, t_total_engagement = 0, t_velocity_score = 0,
          t_rank = 2, t_source = ''twitter_search'', t_timestamp = ''t'', t_topic = None\<rparr>])
   \<and> map_of (fetch_trends (FeedReply 200 []
        (Inr [\<lparr>title = Element (Some ''x''), link = Missing, pubDate = Missing,
                approx_traffic = Missing, news_items = []\<rparr>,
              \<lparr>title = Missing, link = Missing, pubDate = Missing,
                approx_traffic = Element (Some ''500+''), news_items = []\<rparr>])) ''US'' ''t'')
      ''trends''
     = Some (JList
        [\<lparr>r_rank = 1, r_topic = Some ''x'', r_url = None, r_pub_date = None,
          r_approximate_traffic = None, r_related_articles = [],
          r_source = ''google_trends_rss'', r_geo = ''US'', r_timestamp = ''t''\<rparr>,
         \<lparr>r_rank = 2, r_topic = Some ''Unknown'', r_url = None, r_pub_date = None,
          r_approximate_traffic = Some ''500+'', r_related_articles = [],
          r_source = ''google_trends_rss'', r_geo = ''US'', r_timestamp = ''t''\<rparr>])
   \<and> map t_rank
        [\<lparr>t_hashtag = ''#b'', t_mentions = 1, t_total_engagement = 0, t_velocity_score = 0,
          t_rank = 1, t_source = ''twitter_search'', t_timestamp = ''t'', t_topic = None\<rparr>,
         \<lparr>t_hashtag = ''#a'', t_mentions = 1, t_total_engagement = 0, t_velocity_score = 0,
          t_rank = 2, t_source = ''twitter_search'', t_timestamp = ''t'', t_topic = None\<rparr>]
     = [1..2]
   \<and> map r_rank
        [\<lparr>r_rank = 1, r_topic = Some ''x'', r_url = None, r_pub_date = None,
          r_approximate_traffic = None, r_related_articles = [],
          r_source = ''google_trends_rss'', r_geo = ''US'', r_timestamp = ''t''\<rparr>,
         \<lparr>r_rank = 2, r_topic = Some ''Unknown'', r_url = None, r_pub_date = None,
          r_approximate_traffic = Some ''500+'', r_related_articles = [],
          r_source = ''google_trends_rss'', r_geo = ''US'', r_timestamp = ''t''\<rparr>]
     = [1..2]"
proof -
  let ?o = "[Reply 200 [] (Some [\<lparr>entities_hashtags = Some [''b'', ''a''], public_metrics = None\<rparr>])]"
  let ?f = "FeedReply 200 []
        (Inr [\<lparr>title = Element (Some ''x''), link = Missing, pubDate = Missing,
                approx_traffic = Missing, news_items = []\<rparr>,
              \<lparr>title = Missing, link = Missing, pubDate = Missing,
                approx_traffic = Element (Some ''500+''), news_items = []\<rparr>])"
  let ?ts = "[\<lparr>t_hashtag = ''#b'', t_mentions = 1, t_total_engagement = 0, t_velocity_score = 0,
          t_rank = 1, t_source = ''twitter_search'', t_timestamp = ''t'', t_topic = None\<rparr>,
         \<lparr>t_hashtag = ''#a'', t_mentions = 1, t_total_engagement = 0, t_velocity_score = 0,
          t_rank = 2, t_source = ''twitter_search'', t_timestamp = ''t'', t_topic = None\<rparr>]"
  let ?rs = "[\<lparr>r_rank = 1, r_topic = Some ''x'', r_url = None, r_pub_date = None,
          r_approximate_traffic = None, r_related_articles = [],
          r_source = ''google_trends_rss'', r_geo = ''US'', r_timestamp = ''t''\<rparr>,
         \<lparr>r_rank = 2, r_topic = Some ''Unknown'', r_url = None, r_pub_date = None,
          r_approximate_traffic = Some ''500+'', r_related_articles = [],
          r_source = ''google_trends_rss'', r_geo = ''US'', r_timestamp = ''t''\<rparr>]"
  have a: "map_of (find_trending_topics ascii_lower ?o ''t'') ''trends'' = Some (JList ?ts)"
    by code_simp
  have b: "map_of (fetch_trends ?f ''US'' ''t'') ''trends'' = Some (JList ?rs)"
    by code_simp
  from ranks_are_contiguous [of ascii_lower ?o "''t''" ?f "''US''"] a b
  have "map t_rank ?ts = [1..int (length ?ts)]" and "map r_rank ?rs = [1..int (length ?rs)]"
    by blast+
  then have "map t_rank ?ts = [1..2]" and "map r_rank ?rs = [1..2]"
    by simp_all
  with a b show ?thesis by blast
qed

subsection \<open>C5: an upstream reply with no items\<close>

text \<open>
  C5 says that an empty result is not a failure for the aggregator source and is a failure
  for the feed source. The code has it the other way round: \<open>get_trending_searches\<close>
  returns \<open>success: False\<close> for an empty list of trending searches, and \<open>fetch_trends\<close>
  returns \<open>success: True\<close> with count 0 for a well-formed feed without items.
\<close>

theorem empty_results_the_other_way_round:
  "get_trending_searches (SerpJson None (Some ([] :: string list))) ''US'' (Some 20)
       ''2026-01-01T00:00:00''
     = [(''success'', JBool False), (''error'', JStr ''No trending searches found''),
        (''message'', JStr ''API returned empty results'')]
   \<and> fetch_trends (FeedReply 200 ''<rss><channel></channel></rss>'' (Inr [])) ''US''
       ''2026-01-01T00:00:00''
     = [(''success'', JBool True), (''count'', JInt 0), (''trends'', JList []),
        (''geo'', JStr ''US''), (''fetched_at'', JStr ''2026-01-01T00:00:00'')]"
  by (simp add: get_trending_searches_def fetch_trends_def)

text \<open>
  C5 as amended: for the aggregator source a reply whose list of trending searches is
  empty or missing is a failure (\<open>success: False\<close>, error \<open>No trending searches found\<close>),
  whatever the limit; for the feed source a well-formed feed with no entries is a success
  with count 0 and an empty list of trends.
\<close>

theorem empty_result_by_source:
  "get_trending_searches (SerpJson None (Some [])) geo limit now
     = [(''success'', JBool False), (''error'', JStr ''No trending searches found''),
        (''message'', JStr ''API returned empty results'')]
   \<and> get_trending_searches (SerpJson None None) geo limit now
     = [(''success'', JBool False), (''error'', JStr ''No trending searches found''),
        (''message'', JStr ''API returned empty results'')]
   \<and> fetch_trends (FeedReply 200 text (Inr [])) geo now
     = [(''success'', JBool True), (''count'', JInt 0), (''trends'', JList []),
        (''geo'', JStr geo), (''fetched_at'', JStr now)]"
  by (simp add: get_trending_searches_def fetch_trends_def)

section \<open>Properties of the handlers\<close>

lemma cache_hit_fresh: "cache_hit ttl True now slot = None"
  by (simp add: cache_hit_def split: option.splits)

lemma cache_hit_Some:
  "cache_hit ttl False now (Some (d, mtime))
     = (if cache_age now mtime < ttl then Some (d, cache_age now mtime) else None)"
  by (simp add: cache_hit_def)

text \<open>An age of a whole number of seconds is computed exactly.\<close>

lemma cache_age_exact:
  assumes "now - mtime = of_int n" and "\<bar>n\<bar> < 2 ^ 53"
  shows "cache_age now mtime = of_int n"
  using assms by (simp add: cache_age_def fl_of_int)

subsection \<open>C4: a forced refresh that fails\<close>

lemma find_trending_topics_all_errors:
  assumes "list_all call_errored outcomes"
  shows "find_trending_topics lower outcomes now_iso
    = [(''success'', JBool True), (''count'', JInt 0), (''trends'', JList []),
       (''fetched_at'', JStr now_iso)]"
  using all_hashtags_all_errors [OF assms, of lower]
  by (simp add: find_trending_topics_def final_trends_def combine_def sort_desc_def)

text \<open>
  C4 says that a forced refresh whose collector fails answers with a failure and leaves
  the cached entry as it was. The Twitter collector cannot fail: when the search call of
  every category errors, \<open>find_trending_topics\<close> still reports success with no trends, and
  \<open>/trends/twitter\<close> with \<open>fresh=true\<close> answers 200 and writes that empty result over the
  cache file, which held \<open>#a\<close>.
\<close>

theorem forced_twitter_refresh_overwrites_cache:
  "list_all call_errored [Raises ''timed out'', Reply 429 ''Too Many Requests'' None]
   \<and> get_twitter_trends
       (find_trending_topics ascii_lower
          [Raises ''timed out'', Reply 429 ''Too Many Requests'' None] ''t1'')
       20 True 200
       (Some ([(''success'', JBool True), (''count'', JInt 1),
               (''trends'', JList [\<lparr>t_hashtag = ''#a'', t_mentions = 1, t_total_engagement = 3,
                   t_velocity_score = 3, t_rank = 1, t_source = ''twitter_search'',
                   t_timestamp = ''t0'', t_topic = Some ''#a''\<rparr>]),
               (''fetched_at'', JStr ''t0'')], 100))
     = (Respond 200
          [(''success'', JBool True), (''count'', JInt 0), (''trends'', JList []),
           (''fetched_at'', JStr ''t1''), (''cached'', JBool False)],
        Some ([(''success'', JBool True), (''count'', JInt 0), (''trends'', JList []),
               (''fetched_at'', JStr ''t1'')], 200))"
proof -
  have e: "list_all call_errored [Raises ''timed out'', Reply 429 ''Too Many Requests'' None]"
    by (simp add: call_errored_def search_recent_tweets_def)
  show ?thesis
    unfolding find_trending_topics_all_errors [OF e]
    using e
    by (simp add: get_twitter_trends_def cache_hit_fresh map_trends_def slice_trends_def
        slice_to_def)
qed

text \<open>
  C4 as amended. On a request that forces a refresh (\<open>fresh\<close> is true):
  for the Google and RSS handlers, when the collector's result has a false \<open>success\<close> the
  handler answers 500 with an error body made from that result alone, and the cache file
  is as it was: not written, not removed, not served.
  For the Twitter handlers, \<open>/trends/twitter\<close> and \<open>/trends/refresh\<close>, the collector does not
  fail: when the search call of every category errors they answer 200 with count 0 and
  no trends, and write that empty result over the cache file.
\<close>

theorem forced_refresh_failure_leaves_cache:
  "(list_all call_errored outcomes \<longrightarrow>
      get_twitter_trends (find_trending_topics lower outcomes now_iso) limit True now slot
        = (Respond 200
             [(''success'', JBool True), (''count'', JInt 0), (''trends'', JList []),
              (''fetched_at'', JStr now_iso), (''cached'', JBool False)],
           Some ([(''success'', JBool True), (''count'', JInt 0), (''trends'', JList []),
                  (''fetched_at'', JStr now_iso)], now))
      \<and> refresh_trends (find_trending_topics lower outcomes now_iso) now slot
        = (Respond 200
             [(''success'', JBool True), (''message'', JStr ''Trends refreshed successfully''),
              (''count'', JInt 0), (''fetched_at'', JStr now_iso)],
           Some ([(''success'', JBool True), (''count'', JInt 0), (''trends'', JList []),
                  (''fetched_at'', JStr now_iso)], now)))
   \<and> (map_of (gcollector geo limit) ''success'' = Some gok \<and> \<not> truthy gok \<longrightarrow>
      get_google_trends gcollector limit True geo now gslot
        = (Respond 500 [(''error'', JStr ''Failed to fetch Google trends''),
                        (''message'', get_or (gcollector geo limit) ''message'' (JStr ''Unknown error'')),
                        (''details'', get_or (gcollector geo limit) ''error'' (JStr []))], gslot))
   \<and> (map_of (rcollector geo) ''success'' = Some rok \<and> \<not> truthy rok \<longrightarrow>
      get_google_trends_rss rcollector limit True geo now rslot
        = (Respond 500 [(''error'', JStr ''Failed to fetch Google trends''),
                        (''message'', get_or (rcollector geo) ''error'' (JStr ''Unknown error''))], rslot))"
proof (intro conjI impI)
  assume e: "list_all call_errored outcomes"
  show "get_twitter_trends (find_trending_topics lower outcomes now_iso) limit True now slot
        = (Respond 200
             [(''success'', JBool True), (''count'', JInt 0), (''trends'', JList []),
              (''fetched_at'', JStr now_iso), (''cached'', JBool False)],
           Some ([(''success'', JBool True), (''count'', JInt 0), (''trends'', JList []),
                  (''fetched_at'', JStr now_iso)], now))"
    unfolding find_trending_topics_all_errors [OF e]
    by (simp add: get_twitter_trends_def cache_hit_fresh map_trends_def slice_trends_def
        slice_to_def)
  show "refresh_trends (find_trending_topics lower outcomes now_iso) now slot
        = (Respond 200
             [(''success'', JBool True), (''message'', JStr ''Trends refreshed successfully''),
              (''count'', JInt 0), (''fetched_at'', JStr now_iso)],
           Some ([(''success'', JBool True), (''count'', JInt 0), (''trends'', JList []),
                  (''fetched_at'', JStr now_iso)], now))"
    unfolding find_trending_topics_all_errors [OF e]
    by (simp add: refresh_trends_def)
next
  assume "map_of (gcollector geo limit) ''success'' = Some gok \<and> \<not> truthy gok"
  then show "get_google_trends gcollector limit True geo now gslot
        = (Respond 500 [(''error'', JStr ''Failed to fetch Google trends''),
                        (''message'', get_or (gcollector geo limit) ''message'' (JStr ''Unknown error'')),
                        (''details'', get_or (gcollector geo limit) ''error'' (JStr []))], gslot)"
    by (simp add: get_google_trends_def cache_hit_fresh Let_def)
next
  assume "map_of (rcollector geo) ''success'' = Some rok \<and> \<not> truthy rok"
  then show "get_google_trends_rss rcollector limit True geo now rslot
        = (Respond 500 [(''error'', JStr ''Failed to fetch Google trends''),
                        (''message'', get_or (rcollector geo) ''error'' (JStr ''Unknown error''))], rslot)"
    by (simp add: get_google_trends_rss_def cache_hit_fresh Let_def)
qed

text \<open>
  The witness: cache files written at second 100 and still fresh at second 200; a Twitter
  search that answers 503, a SerpAPI call and a feed call that time out.
\<close>

theorem forced_refresh_failure_leaves_cache_witness:
  "list_all call_errored [Reply 503 ''Service Unavailable'' None]
   \<and> refresh_trends
       (find_trending_topics ascii_lower [Reply 503 ''Service Unavailable'' None] ''t1'') 200
       (Some ([(''success'', JBool True), (''count'', JInt 0), (''trends'', JList []),
               (''fetched_at'', JStr ''t0'')], 100))
     = (Respond 200
          [(''success'', JBool True), (''message'', JStr ''Trends refreshed successfully''),
           (''count'', JInt 0), (''fetched_at'', JStr ''t1'')],
        Some ([(''success'', JBool True), (''count'', JInt 0), (''trends'', JList []),
               (''fetched_at'', JStr ''t1'')], 200))
   \<and> get_google_trends
       (serp_collector (SerpRequestException ''timed out'') ''t1'') 20 True ''US'' 200
       (Some ([(''success'', JBool True), (''trends'', JList [''x'']), (''cached'', JBool False)], 100))
     = (Respond 500 [(''error'', JStr ''Failed to fetch Google trends''),
                     (''message'', JStr ''Failed to fetch from SerpAPI''),
                     (''details'', JStr ''timed out'')],
        Some ([(''success'', JBool True), (''trends'', JList [''x'']), (''cached'', JBool False)], 100))
   \<and> get_google_trends_rss (\<lambda>geo. fetch_trends (FeedRequestException ''timed out'') geo ''t1'')
       20 True ''US'' 200
       (Some ([(''success'', JBool True), (''count'', JInt 0), (''trends'', JList []),
               (''geo'', JStr ''US''), (''fetched_at'', JStr ''t0'')], 100))
     = (Respond 500 [(''error'', JStr ''Failed to fetch Google trends''),
                     (''message'', JStr ''Network error'')],
        Some ([(''success'', JBool True), (''count'', JInt 0), (''trends'', JList []),
               (''geo'', JStr ''US''), (''fetched_at'', JStr ''t0'')], 100))"
proof -
  let ?o = "[Reply 503 ''Service Unavailable'' None]"
  let ?g = "serp_collector (SerpRequestException ''timed out'' :: string serp_outcome) ''t1''"
  let ?f = "\<lambda>geo. fetch_trends (FeedRequestException ''timed out'') geo ''t1''"
  have o: "list_all call_errored ?o"
    by (simp add: call_errored_def search_recent_tweets_def)
  have g: "map_of (?g ''US'' 20) ''success'' = Some (JBool False) \<and> \<not> truthy (JBool False :: string val)"
    by (simp add: serp_collector_def get_trending_searches_def)
  have f: "map_of (?f ''US'') ''success'' = Some (JBool False) \<and> \<not> truthy (JBool False :: rss_trend val)"
    by (simp add: fetch_trends_def)
  have v:
    "get_or (?g ''US'' 20) ''message'' (JStr ''Unknown error'') = JStr ''Failed to fetch from SerpAPI''"
    "get_or (?g ''US'' 20) ''error'' (JStr []) = JStr ''timed out''"
    "get_or (?f ''US'') ''error'' (JStr ''Unknown error'') = JStr ''Network error''"
    by (simp_all add: get_or_def serp_collector_def get_trending_searches_def fetch_trends_def)
  note t = forced_refresh_failure_leaves_cache
    [where outcomes = ?o and lower = ascii_lower and now_iso = "''t1''" and now = 200
       and gcollector = ?g and geo = "''US''" and limit = 20 and gok = "JBool False"
       and rcollector = ?f and rok = "JBool False"]
  from t o g f show ?thesis
    unfolding v by blast
qed

lemma slice_trends_Some:
  "map_of d ''trends'' = Some (JList ts) \<Longrightarrow>
     slice_trends f limit d = Inr (AList.update ''trends'' (JList (slice_to limit (map f ts))) d)"
  by (simp add: slice_trends_def)

lemma google_cached_Some:
  assumes "map_of d ''trends'' = Some (JList ts)"
  shows "google_cached limit age d
    = Inr (AList.update ''cache_age_hours'' (JNum (py_round1 (fl (age / 3600))))
            (AList.update ''cache_age_seconds'' (JInt (py_int age))
              (AList.update ''cached'' (JBool True)
                (if limit \<noteq> 0 \<and> limit < int (length ts)
                 then AList.update ''trends'' (JList (slice_to limit ts)) d else d))))"
  using assms by (simp add: google_cached_def slice_trends_Some Let_def)

subsection \<open>The boundary of freshness, handler by handler\<close>

lemma twitter_boundary:
  "(get_twitter_trends result limit False (mtime + 3600) (Some (d, mtime))
        = get_twitter_trends result limit True (mtime + 3600) (Some (d, mtime)))
   \<and> (map_of d ''trends'' = Some (JList ts) \<longrightarrow>
      get_twitter_trends result limit False (mtime + 3599) (Some (d, mtime))
        = (Respond 200
             (AList.update ''cache_age_seconds'' (JInt 3599)
               (AList.update ''cached'' (JBool True)
                 (AList.update ''trends'' (JList (slice_to limit (map normalize_trend ts))) d))),
           Some (d, mtime)))"
proof (intro conjI impI)
  have "cache_age (mtime + 3600) mtime = 3600"
    using cache_age_exact [of "mtime + 3600" mtime 3600] by simp
  then show "get_twitter_trends result limit False (mtime + 3600) (Some (d, mtime))
        = get_twitter_trends result limit True (mtime + 3600) (Some (d, mtime))"
    by (simp add: get_twitter_trends_def cache_hit_fresh cache_hit_Some)
next
  assume a: "map_of d ''trends'' = Some (JList ts)"
  have "cache_age (mtime + 3599) mtime = 3599"
    using cache_age_exact [of "mtime + 3599" mtime 3599] by simp
  with a show "get_twitter_trends result limit False (mtime + 3599) (Some (d, mtime))
        = (Respond 200
             (AList.update ''cache_age_seconds'' (JInt 3599)
               (AList.update ''cached'' (JBool True)
                 (AList.update ''trends'' (JList (slice_to limit (map normalize_trend ts))) d))),
           Some (d, mtime))"
    by (simp add: get_twitter_trends_def cache_hit_Some slice_trends_Some py_int_def)
qed

lemma google_boundary:
  "(get_google_trends collector limit False geo (mtime + 43200) (Some (d, mtime))
        = get_google_trends collector limit True geo (mtime + 43200) (Some (d, mtime)))
   \<and> (map_of d ''trends'' = Some (JList ts) \<longrightarrow>
      get_google_trends collector limit False geo (mtime + 43199) (Some (d, mtime))
        = (Respond 200
             (AList.update ''cache_age_hours'' (JNum (py_round1 (fl (43199 / 3600))))
               (AList.update ''cache_age_seconds'' (JInt 43199)
                 (AList.update ''cached'' (JBool True)
                   (if limit \<noteq> 0 \<and> limit < int (length ts)
                    then AList.update ''trends'' (JList (slice_to limit ts)) d else d)))),
           Some (d, mtime)))"
proof (intro conjI impI)
  have "cache_age (mtime + 43200) mtime = 43200"
    using cache_age_exact [of "mtime + 43200" mtime 43200] by simp
  then show "get_google_trends collector limit False geo (mtime + 43200) (Some (d, mtime))
        = get_google_trends collector limit True geo (mtime + 43200) (Some (d, mtime))"
    by (simp add: get_google_trends_def cache_hit_fresh cache_hit_Some)
next
  assume a: "map_of d ''trends'' = Some (JList ts)"
  have "cache_age (mtime + 43199) mtime = 43199"
    using cache_age_exact [of "mtime + 43199" mtime 43199] by simp
  with a show "get_google_trends collector limit False geo (mtime + 43199) (Some (d, mtime))
        = (Respond 200
             (AList.update ''cache_age_hours'' (JNum (py_round1 (fl (43199 / 3600))))
               (AList.update ''cache_age_seconds'' (JInt 43199)
                 (AList.update ''cached'' (JBool True)
                   (if limit \<noteq> 0 \<and> limit < int (length ts)
                    then AList.update ''trends'' (JList (slice_to limit ts)) d else d)))),
           Some (d, mtime))"
    by (simp add: get_google_trends_def cache_hit_Some google_cached_Some py_int_def)
qed

lemma rss_boundary:
  "(get_google_trends_rss collector limit False geo (mtime + 7200) (Some (d, mtime))
        = get_google_trends_rss collector limit True geo (mtime + 7200) (Some (d, mtime)))
   \<and> (map_of d ''trends'' = Some (JList ts) \<longrightarrow>
      get_google_trends_rss collector limit False geo (mtime + 7199) (Some (d, mtime))
        = (Respond 200
             (AList.update ''cache_age_seconds'' (JInt 7199)
               (AList.update ''cached'' (JBool True)
                 (AList.update ''trends'' (JList (slice_to limit ts)) d))),
           Some (d, mtime)))"
proof (intro conjI impI)
  have "cache_age (mtime + 7200) mtime = 7200"
    using cache_age_exact [of "mtime + 7200" mtime 7200] by simp
  then show "get_google_trends_rss collector limit False geo (mtime + 7200) (Some (d, mtime))
        = get_google_trends_rss collector limit True geo (mtime + 7200) (Some (d, mtime))"
    by (simp add: get_google_trends_rss_def cache_hit_fresh cache_hit_Some)
next
  assume a: "map_of d ''trends'' = Some (JList ts)"
  have "cache_age (mtime + 7199) mtime = 7199"
    using cache_age_exact [of "mtime + 7199" mtime 7199] by simp
  with a show "get_google_trends_rss collector limit False geo (mtime + 7199) (Some (d, mtime))
        = (Respond 200
             (AList.update ''cache_age_seconds'' (JInt 7199)
               (AList.update ''cached'' (JBool True)
                 (AList.update ''trends'' (JList (slice_to limit ts)) d))),
           Some (d, mtime))"
    by (simp add: get_google_trends_rss_def cache_hit_Some slice_trends_Some py_int_def)
qed

lemma search_cache_boundary:
  assumes "fl (t0 + TWITTER_CACHE_TTL) = t0 + TWITTER_CACHE_TTL"
  shows "twitter_cache_get key (t0 + TWITTER_CACHE_TTL) (twitter_cache_set key data t0 cache)
           = (None, (twitter_cache_set key data t0 cache)(key := None))"
    and "twitter_cache_get key (t0 + TWITTER_CACHE_TTL - 1) (twitter_cache_set key data t0 cache)
           = (Some data, twitter_cache_set key data t0 cache)"
  using assms by (simp_all add: twitter_cache_get_def twitter_cache_set_def)

lemma search_handler_boundary:
  assumes e: "fl (t0 + TWITTER_CACHE_TTL) = t0 + TWITTER_CACHE_TTL"
    and q: "strip q \<noteq> []"
  shows "get_twitter_for_trend lower strip md5 api_result q limit (t0 + TWITTER_CACHE_TTL) now_iso
             (twitter_cache_set (md5 (lower (strip q))) data t0 cache)
           = fetch_and_store api_result (strip q) (min limit 20) (t0 + TWITTER_CACHE_TTL) now_iso
               (md5 (lower (strip q)))
               ((twitter_cache_set (md5 (lower (strip q))) data t0 cache)
                  (md5 (lower (strip q)) := None))"
    and "data \<noteq> [] \<Longrightarrow>
         get_twitter_for_trend lower strip md5 api_result q limit (t0 + TWITTER_CACHE_TTL - 1) now_iso
             (twitter_cache_set (md5 (lower (strip q))) data t0 cache)
           = (Respond 200 (AList.update ''cached'' (JBool True) data),
              twitter_cache_set (md5 (lower (strip q)))
                (AList.update ''cached'' (JBool True) data) t0 cache)"
proof -
  show "get_twitter_for_trend lower strip md5 api_result q limit (t0 + TWITTER_CACHE_TTL) now_iso
             (twitter_cache_set (md5 (lower (strip q))) data t0 cache)
           = fetch_and_store api_result (strip q) (min limit 20) (t0 + TWITTER_CACHE_TTL) now_iso
               (md5 (lower (strip q)))
               ((twitter_cache_set (md5 (lower (strip q))) data t0 cache)
                  (md5 (lower (strip q)) := None))"
    using q by (simp add: get_twitter_for_trend_def Let_def search_cache_boundary(1) [OF e])
  show "get_twitter_for_trend lower strip md5 api_result q limit (t0 + TWITTER_CACHE_TTL - 1) now_iso
             (twitter_cache_set (md5 (lower (strip q))) data t0 cache)
           = (Respond 200 (AList.update ''cached'' (JBool True) data),
              twitter_cache_set (md5 (lower (strip q)))
                (AList.update ''cached'' (JBool True) data) t0 cache)" if "data \<noteq> []"
    using q that
    by (simp add: get_twitter_for_trend_def Let_def search_cache_boundary(2) [OF e])
      (simp add: twitter_cache_set_def)
qed

subsection \<open>C3: the boundary of freshness\<close>

text \<open>
  C3 says that in every cache an entry as old as its time to live is a miss, and an entry
  one second younger is served with \<open>cached = true\<close> and its age in \<open>cache_age_seconds\<close>.
  The in-memory cache of \<open>/trends/twitter/search\<close> keeps an expiry time and no age: a
  search stored at second 1000 and asked again at second 4599 is served with \<open>cached\<close> set
  and without \<open>cache_age_seconds\<close>.
\<close>

theorem search_cache_reports_no_age:
  "fst (get_twitter_for_trend ascii_lower ascii_strip id [(''tweets'', JList ([] :: string list)), (''count'', JInt 0)]
          ''ai'' 10 4599 ''2026-01-01T01:16:39''
          (snd (get_twitter_for_trend ascii_lower ascii_strip id [(''tweets'', JList []), (''count'', JInt 0)]
             ''ai'' 10 1000 ''2026-01-01T00:16:40'' Map.empty)))
     = Respond 200 [(''success'', JBool True), (''query'', JStr ''ai''), (''count'', JInt 0),
         (''tweets'', JList []), (''fetched_at'', JStr ''2026-01-01T00:16:40''),
         (''cached'', JBool True)]
   \<and> map_of [(''success'', JBool True), (''query'', JStr ''ai''), (''count'', JInt 0),
         (''tweets'', JList ([] :: string list)), (''fetched_at'', JStr ''2026-01-01T00:16:40''),
         (''cached'', JBool True)] ''cache_age_seconds'' = None"
  by code_simp

text \<open>
  C3 as amended. The boundary is strict in every cache: at an age equal to the time to
  live the handler does what a forced refresh does, and the in-memory cache misses and
  drops the entry. One second earlier the three file caches (3600, 43200 and 7200
  seconds) serve the file's document with \<open>cached = true\<close> and the age in
  \<open>cache_age_seconds\<close> (the Google handler adds \<open>cache_age_hours\<close>); the in-memory cache
  serves the stored document with \<open>cached = true\<close> and adds no other key. The file's
  document is taken to have its list of trends, and the in-memory expiry time
  \<open>t0 + 3600\<close> to be a float.
\<close>

theorem freshness_boundary_is_strict:
  "(get_twitter_trends result limit False (mtime + 3600) (Some (d, mtime))
        = get_twitter_trends result limit True (mtime + 3600) (Some (d, mtime)))
   \<and> (map_of d ''trends'' = Some (JList ts) \<longrightarrow>
      get_twitter_trends result limit False (mtime + 3599) (Some (d, mtime))
        = (Respond 200
             (AList.update ''cache_age_seconds'' (JInt 3599)
               (AList.update ''cached'' (JBool True)
                 (AList.update ''trends'' (JList (slice_to limit (map normalize_trend ts))) d))),
           Some (d, mtime)))
   \<and> (get_google_trends gcollector limit False geo (mtime + 43200) (Some (gd, mtime))
        = get_google_trends gcollector limit True geo (mtime + 43200) (Some (gd, mtime)))
   \<and> (map_of gd ''trends'' = Some (JList gts) \<longrightarrow>
      get_google_trends gcollector limit False geo (mtime + 43199) (Some (gd, mtime))
        = (Respond 200
             (AList.update ''cache_age_hours'' (JNum (py_round1 (fl (43199 / 3600))))
               (AList.update ''cache_age_seconds'' (JInt 43199)
                 (AList.update ''cached'' (JBool True)
                   (if limit \<noteq> 0 \<and> limit < int (length gts)
                    then AList.update ''trends'' (JList (slice_to limit gts)) gd else gd)))),
           Some (gd, mtime)))
   \<and> (get_google_trends_rss rcollector limit False geo (mtime + 7200) (Some (rd, mtime))
        = get_google_trends_rss rcollector limit True geo (mtime + 7200) (Some (rd, mtime)))
   \<and> (map_of rd ''trends'' = Some (JList rts) \<longrightarrow>
      get_google_trends_rss rcollector limit False geo (mtime + 7199) (Some (rd, mtime))
        = (Respond 200
             (AList.update ''cache_age_seconds'' (JInt 7199)
               (AList.update ''cached'' (JBool True)
                 (AList.update ''trends'' (JList (slice_to limit rts)) rd))),
           Some (rd, mtime)))
   \<and> (fl (t0 + TWITTER_CACHE_TTL) = t0 + TWITTER_CACHE_TTL \<and> strip q \<noteq> [] \<and> data \<noteq> [] \<longrightarrow>
      twitter_cache_get key (t0 + TWITTER_CACHE_TTL) (twitter_cache_set key data t0 cache)
        = (None, (twitter_cache_set key data t0 cache)(key := None))
      \<and> twitter_cache_get key (t0 + TWITTER_CACHE_TTL - 1) (twitter_cache_set key data t0 cache)
        = (Some data, twitter_cache_set key data t0 cache)
      \<and> get_twitter_for_trend lower strip md5 api_result q limit (t0 + TWITTER_CACHE_TTL) now_iso
             (twitter_cache_set (md5 (lower (strip q))) data t0 cache)
        = fetch_and_store api_result (strip q) (min limit 20) (t0 + TWITTER_CACHE_TTL) now_iso
               (md5 (lower (strip q)))
               ((twitter_cache_set (md5 (lower (strip q))) data t0 cache)
                  (md5 (lower (strip q)) := None))
      \<and> get_twitter_for_trend lower strip md5 api_result q limit (t0 + TWITTER_CACHE_TTL - 1) now_iso
             (twitter_cache_set (md5 (lower (strip q))) data t0 cache)
        = (Respond 200 (AList.update ''cached'' (JBool True) data),
           twitter_cache_set (md5 (lower (strip q)))
             (AList.update ''cached'' (JBool True) data) t0 cache))"
  using twitter_boundary [where mtime = mtime and result = result
        and limit = limit and d = d and ts = ts]
    google_boundary [where mtime = mtime and collector = gcollector
        and limit = limit and geo = geo and d = gd and ts = gts]
    rss_boundary [where mtime = mtime and collector = rcollector
        and limit = limit and geo = geo and d = rd and ts = rts]
    search_cache_boundary [where ?t0.0 = t0 and key = key and data = data and cache = cache]
    search_handler_boundary [where ?t0.0 = t0 and q = q and ?md5.0 = md5
        and lower = lower and strip = strip
        and api_result = api_result and limit = limit and now_iso = now_iso and data = data
        and cache = cache]
  by blast

text \<open>
  The witness: files written at second 100 and read one second before they expire, and a
  search stored at second 1000.
\<close>

theorem freshness_boundary_is_strict_witness:
  "get_twitter_trends [] 1 False (100 + 3599)
       (Some ([(''success'', JBool True), (''count'', JInt 0), (''trends'', JList []),
               (''fetched_at'', JStr ''t0'')], 100))
     = (Respond 200
          [(''success'', JBool True), (''count'', JInt 0), (''trends'', JList []),
           (''fetched_at'', JStr ''t0''), (''cached'', JBool True),
           (''cache_age_seconds'', JInt 3599)],
        Some ([(''success'', JBool True), (''count'', JInt 0), (''trends'', JList []),
               (''fetched_at'', JStr ''t0'')], 100))
   \<and> get_google_trends (\<lambda>geo limit. []) 1 False ''US'' (100 + 43199)
       (Some ([(''success'', JBool True), (''trends'', JList [''x'', ''y'']),
               (''cached'', JBool False)], 100))
     = (Respond 200
          [(''success'', JBool True), (''trends'', JList [''x'']), (''cached'', JBool True),
           (''cache_age_seconds'', JInt 43199),
           (''cache_age_hours'', JNum (py_round1 (fl (43199 / 3600))))],
        Some ([(''success'', JBool True), (''trends'', JList [''x'', ''y'']),
               (''cached'', JBool False)], 100))
   \<and> get_google_trends_rss (\<lambda>geo. []) 1 False ''US'' (100 + 7199)
       (Some ([(''success'', JBool True), (''trends'', JList [''x''])], 100))
     = (Respond 200
          [(''success'', JBool True), (''trends'', JList [''x'']), (''cached'', JBool True),
           (''cache_age_seconds'', JInt 7199)],
        Some ([(''success'', JBool True), (''trends'', JList [''x''])], 100))
   \<and> fl (1000 + TWITTER_CACHE_TTL) = 1000 + TWITTER_CACHE_TTL
   \<and> twitter_cache_get ''k'' (1000 + TWITTER_CACHE_TTL)
        (twitter_cache_set ''k'' [(''cached'', JBool False)] 1000 Map.empty)
     = (None, (twitter_cache_set ''k'' [(''cached'', JBool (False :: bool)) :: string \<times> string val]
                 1000 Map.empty)(''k'' := None))
   \<and> get_twitter_for_trend ascii_lower ascii_strip id [] ''ai'' 1 (1000 + TWITTER_CACHE_TTL - 1) ''t1''
        (twitter_cache_set (id (ascii_lower (ascii_strip ''ai''))) [(''cached'', JBool False)] 1000 Map.empty)
     = (Respond 200 [(''cached'', JBool True) :: string \<times> string val],
        twitter_cache_set (id (ascii_lower (ascii_strip ''ai''))) [(''cached'', JBool True)] 1000 Map.empty)"
proof -
  let ?d = "[(''success'', JBool True), (''count'', JInt 0), (''trends'', JList []),
             (''fetched_at'', JStr ''t0'')] :: trend doc"
  let ?gd = "[(''success'', JBool True), (''trends'', JList [''x'', ''y'']),
              (''cached'', JBool False)] :: string doc"
  let ?rd = "[(''success'', JBool True), (''trends'', JList [''x''])] :: string doc"
  let ?data = "[(''cached'', JBool False)] :: string doc"
  have e: "fl (1000 + TWITTER_CACHE_TTL) = 1000 + TWITTER_CACHE_TTL"
    using fl_of_int [of 4600] by (simp add: TWITTER_CACHE_TTL_def)
  have q: "ascii_strip ''ai'' \<noteq> []"
    by (simp add: ascii_strip_def ascii_space_def)
  note t = freshness_boundary_is_strict
    [where mtime = 100 and d = ?d and ts = "[]" and limit = 1 and result = "[]"
       and gd = ?gd and gts = "[''x'', ''y'']" and gcollector = "\<lambda>geo limit. []"
       and rd = ?rd and rts = "[''x'']" and rcollector = "\<lambda>geo. []" and geo = "''US''"
       and ?t0.0 = 1000 and q = "''ai''" and data = ?data and key = "''k''" and ?md5.0 = id
       and lower = ascii_lower and strip = ascii_strip
       and cache = Map.empty and api_result = "[]" and now_iso = "''t1''"]
  have 1: "get_twitter_trends [] 1 False (100 + 3599) (Some (?d, 100))
     = (Respond 200
          [(''success'', JBool True), (''count'', JInt 0), (''trends'', JList []),
           (''fetched_at'', JStr ''t0''), (''cached'', JBool True),
           (''cache_age_seconds'', JInt 3599)], Some (?d, 100))"
    using t by (simp add: slice_to_def)
  have 2: "get_google_trends (\<lambda>geo limit. []) 1 False ''US'' (100 + 43199) (Some (?gd, 100))
     = (Respond 200
          [(''success'', JBool True), (''trends'', JList [''x'']), (''cached'', JBool True),
           (''cache_age_seconds'', JInt 43199),
           (''cache_age_hours'', JNum (py_round1 (fl (43199 / 3600))))], Some (?gd, 100))"
    using t by (simp add: slice_to_def)
  have 3: "get_google_trends_rss (\<lambda>geo. []) 1 False ''US'' (100 + 7199) (Some (?rd, 100))
     = (Respond 200
          [(''success'', JBool True), (''trends'', JList [''x'']), (''cached'', JBool True),
           (''cache_age_seconds'', JInt 7199)], Some (?rd, 100))"
    using t by (simp add: slice_to_def)
  have 4: "twitter_cache_get ''k'' (1000 + TWITTER_CACHE_TTL)
        (twitter_cache_set ''k'' ?data 1000 Map.empty)
     = (None, (twitter_cache_set ''k'' ?data 1000 Map.empty)(''k'' := None))"
    and 5: "get_twitter_for_trend ascii_lower ascii_strip id [] ''ai'' 1 (1000 + TWITTER_CACHE_TTL - 1) ''t1''
        (twitter_cache_set (id (ascii_lower (ascii_strip ''ai''))) ?data 1000 Map.empty)
     = (Respond 200 [(''cached'', JBool True)],
        twitter_cache_set (id (ascii_lower (ascii_strip ''ai''))) [(''cached'', JBool True)] 1000 Map.empty)"
    using t e q by simp_all
  from 1 2 3 4 5 e show ?thesis by blast
qed

subsection \<open>What the Google handler writes and reads back\<close>

lemma serp_collector_success:
  assumes "xs \<noteq> []"
  shows "serp_collector (SerpJson None (Some xs)) now_iso geo limit
    = [(''success'', JBool True),
       (''count'', JInt (int (length (if limit \<noteq> 0 then slice_to limit xs else xs)))),
       (''total_available'', JInt (int (length xs))),
       (''geo'', JStr geo),
       (''fetched_at'', JStr now_iso),
       (''source'', JStr ''serpapi_trending_now''),
       (''trends'', JList (if limit \<noteq> 0 then slice_to limit xs else xs))]"
  using assms by (simp add: serp_collector_def get_trending_searches_def Let_def)

lemma google_fetch_and_store:
  assumes "xs \<noteq> []" and "cache_hit 43200 fresh t0 slot = None"
  shows "get_google_trends (serp_collector (SerpJson None (Some xs)) now_iso) limit fresh geo t0 slot
    = (Respond 200
         [(''success'', JBool True),
          (''count'', JInt (int (length (if limit \<noteq> 0 then slice_to limit xs else xs)))),
          (''total_available'', JInt (int (length xs))),
          (''geo'', JStr geo),
          (''fetched_at'', JStr now_iso),
          (''source'', JStr ''serpapi_trending_now''),
          (''trends'', JList (if limit \<noteq> 0 then slice_to limit xs else xs)),
          (''cached'', JBool False)],
       Some ([(''success'', JBool True),
          (''count'', JInt (int (length (if limit \<noteq> 0 then slice_to limit xs else xs)))),
          (''total_available'', JInt (int (length xs))),
          (''geo'', JStr geo),
          (''fetched_at'', JStr now_iso),
          (''source'', JStr ''serpapi_trending_now''),
          (''trends'', JList (if limit \<noteq> 0 then slice_to limit xs else xs)),
          (''cached'', JBool False)], t0))"
  using assms(2) by (simp add: get_google_trends_def serp_collector_success [OF assms(1)] Let_def)

lemma google_read_back:
  assumes "map_of d ''trends'' = Some (JList ts)" and "cache_age t1 t0 < 43200"
  shows "get_google_trends collector limit False geo t1 (Some (d, t0))
    = (Respond 200
         (AList.update ''cache_age_hours'' (JNum (py_round1 (fl (cache_age t1 t0 / 3600))))
           (AList.update ''cache_age_seconds'' (JInt (py_int (cache_age t1 t0)))
             (AList.update ''cached'' (JBool True)
               (if limit \<noteq> 0 \<and> limit < int (length ts)
                then AList.update ''trends'' (JList (slice_to limit ts)) d else d)))),
       Some (d, t0))"
  using assms by (simp add: get_google_trends_def cache_hit_Some google_cached_Some)

lemma length_slice_to: "length (slice_to n xs) \<le> length xs"
  by (simp add: slice_to_def) linarith

text \<open>A file written at second 100 and read at second 160.\<close>

lemma age_60: "cache_age 160 100 = 60"
  using cache_age_exact [of 160 100 60] by simp

lemma hours_60: "py_round1 (fl (1 / 60)) = 0"
  by code_simp

subsection \<open>C10: the Google cache holds the list cut to the limit\<close>

text \<open>
  C10 says that a fetch with limit \<open>L\<close> stores the first \<open>L\<close> trends only, so that later
  cached requests get at most \<open>L\<close> trends. With \<open>limit=0\<close> the collector's \<open>if limit:\<close> is
  false and nothing is cut: the whole list is stored, and a later request with limit 50
  gets all three trends of this reply.
\<close>

theorem limit_zero_stores_the_whole_list:
  "get_google_trends (serp_collector (SerpJson None (Some [''a'', ''b'', ''c''])) ''t0'') 0 True
       ''US'' 100 None
     = (Respond 200
          [(''success'', JBool True), (''count'', JInt 3), (''total_available'', JInt 3),
           (''geo'', JStr ''US''), (''fetched_at'', JStr ''t0''),
           (''source'', JStr ''serpapi_trending_now''),
           (''trends'', JList [''a'', ''b'', ''c'']), (''cached'', JBool False)],
        Some ([(''success'', JBool True), (''count'', JInt 3), (''total_available'', JInt 3),
           (''geo'', JStr ''US''), (''fetched_at'', JStr ''t0''),
           (''source'', JStr ''serpapi_trending_now''),
           (''trends'', JList [''a'', ''b'', ''c'']), (''cached'', JBool False)], 100))
   \<and> fst (get_google_trends (serp_collector (SerpJson None (Some [''a'', ''b'', ''c''])) ''t1'') 50
         False ''US'' 160
         (Some ([(''success'', JBool True), (''count'', JInt 3), (''total_available'', JInt 3),
           (''geo'', JStr ''US''), (''fetched_at'', JStr ''t0''),
           (''source'', JStr ''serpapi_trending_now''),
           (''trends'', JList [''a'', ''b'', ''c'']), (''cached'', JBool False)], 100)))
     = Respond 200
          [(''success'', JBool True), (''count'', JInt 3), (''total_available'', JInt 3),
           (''geo'', JStr ''US''), (''fetched_at'', JStr ''t0''),
           (''source'', JStr ''serpapi_trending_now''),
           (''trends'', JList [''a'', ''b'', ''c'']), (''cached'', JBool True),
           (''cache_age_seconds'', JInt 60), (''cache_age_hours'', JNum 0)]
   \<and> (0 :: nat) < length [''a'', ''b'', ''c'']"
proof -
  let ?d = "[(''success'', JBool True), (''count'', JInt 3), (''total_available'', JInt 3),
           (''geo'', JStr ''US''), (''fetched_at'', JStr ''t0''),
           (''source'', JStr ''serpapi_trending_now''),
           (''trends'', JList [''a'', ''b'', ''c'']), (''cached'', JBool False)] :: string doc"
  have 1: "get_google_trends (serp_collector (SerpJson None (Some [''a'', ''b'', ''c''])) ''t0'') 0
       True ''US'' 100 None = (Respond 200 ?d, Some (?d, 100))"
    using google_fetch_and_store [of "[''a'', ''b'', ''c'']" True 100 None "''t0''" 0 "''US''"]
    by (simp add: cache_hit_def)
  have t: "map_of ?d ''trends'' = Some (JList [''a'', ''b'', ''c''])"
    by simp
  have 2: "fst (get_google_trends (serp_collector (SerpJson None (Some [''a'', ''b'', ''c''])) ''t1'')
       50 False ''US'' 160 (Some (?d, 100)))
     = Respond 200
          [(''success'', JBool True), (''count'', JInt 3), (''total_available'', JInt 3),
           (''geo'', JStr ''US''), (''fetched_at'', JStr ''t0''),
           (''source'', JStr ''serpapi_trending_now''),
           (''trends'', JList [''a'', ''b'', ''c'']), (''cached'', JBool True),
           (''cache_age_seconds'', JInt 60), (''cache_age_hours'', JNum 0)]"
    using google_read_back [OF t, of 160 100
        "serp_collector (SerpJson None (Some [''a'', ''b'', ''c''])) ''t1''" 50 "''US''"]
    by (simp add: age_60 hours_60 py_int_def)
  from 1 2 show ?thesis by simp
qed

text \<open>
  C10 as amended, for a limit \<open>L\<close> of at least 1. When the handler fetches with limit \<open>L\<close>
  (a forced refresh, or no fresh file) and the reply has trends, the document written to
  the file holds the first \<open>L\<close> trends. Every later request that finds the file fresh,
  whatever its limit and its collector, answers with a list of trends no longer than \<open>L\<close>
  and leaves the file as it is.
\<close>

theorem google_cache_holds_the_truncated_list:
  assumes "0 < L" and "xs \<noteq> []"
    and "cache_hit 43200 fresh t0 slot = None"
    and "cache_age t1 t0 < 43200"
  shows "\<exists>stored r ts.
      get_google_trends (serp_collector (SerpJson None (Some xs)) now_iso) L fresh geo t0 slot
        = (Respond 200 stored, Some (stored, t0))
      \<and> map_of stored ''trends'' = Some (JList (take (nat L) xs))
      \<and> get_google_trends collector L' False geo' t1 (Some (stored, t0))
        = (Respond 200 r, Some (stored, t0))
      \<and> map_of r ''trends'' = Some (JList ts)
      \<and> length ts \<le> nat L"
proof -
  let ?stored = "[(''success'', JBool True),
          (''count'', JInt (int (length (if L \<noteq> 0 then slice_to L xs else xs)))),
          (''total_available'', JInt (int (length xs))),
          (''geo'', JStr geo),
          (''fetched_at'', JStr now_iso),
          (''source'', JStr ''serpapi_trending_now''),
          (''trends'', JList (if L \<noteq> 0 then slice_to L xs else xs)),
          (''cached'', JBool False)]"
  let ?ts = "take (nat L) xs"
  let ?d = "if L' \<noteq> 0 \<and> L' < int (length ?ts)
            then AList.update ''trends'' (JList (slice_to L' ?ts)) ?stored else ?stored"
  let ?r = "AList.update ''cache_age_hours'' (JNum (py_round1 (fl (cache_age t1 t0 / 3600))))
           (AList.update ''cache_age_seconds'' (JInt (py_int (cache_age t1 t0)))
             (AList.update ''cached'' (JBool True) ?d))"
  have sl: "(if L \<noteq> 0 then slice_to L xs else xs) = ?ts"
    using assms(1) by (simp add: slice_to_def)
  have 1: "get_google_trends (serp_collector (SerpJson None (Some xs)) now_iso) L fresh geo t0 slot
        = (Respond 200 ?stored, Some (?stored, t0))"
    by (rule google_fetch_and_store [OF assms(2,3)])
  have 2: "map_of ?stored ''trends'' = Some (JList ?ts)"
    by (simp add: sl)
  have 3: "get_google_trends collector L' False geo' t1 (Some (?stored, t0))
        = (Respond 200 ?r, Some (?stored, t0))"
    by (rule google_read_back [OF 2 assms(4)])
  have 4: "map_of ?r ''trends''
             = Some (JList (if L' \<noteq> 0 \<and> L' < int (length ?ts) then slice_to L' ?ts else ?ts))"
    by (simp add: update_conv' sl)
  have 5: "length (if L' \<noteq> 0 \<and> L' < int (length ?ts) then slice_to L' ?ts else ?ts) \<le> nat L"
    using length_slice_to [of L' ?ts] by simp
  from 1 2 3 4 5 show ?thesis by blast
qed

theorem google_cache_holds_the_truncated_list_witness:
  "(0 :: int) < 2 \<and> [''a'', ''b'', ''c''] \<noteq> []
   \<and> cache_hit 43200 True 100 (None :: string slot) = None
   \<and> cache_age 160 100 < 43200
   \<and> (\<exists>stored r ts.
        get_google_trends (serp_collector (SerpJson None (Some [''a'', ''b'', ''c''])) ''t0'') 2 True
            ''US'' 100 None
          = (Respond 200 stored, Some (stored, 100))
        \<and> map_of stored ''trends'' = Some (JList (take (nat 2) [''a'', ''b'', ''c'']))
        \<and> get_google_trends (\<lambda>geo limit. []) 50 False ''GB'' 160 (Some (stored, 100))
          = (Respond 200 r, Some (stored, 100))
        \<and> map_of r ''trends'' = Some (JList ts)
        \<and> length ts \<le> nat 2)"
proof -
  have h: "(0 :: int) < 2" "[''a'', ''b'', ''c''] \<noteq> []"
    "cache_hit 43200 True 100 (None :: string slot) = None"
    by (simp_all add: cache_hit_fresh)
  have a: "cache_age 160 100 < 43200"
    using cache_age_exact [of 160 100 60] by simp
  from google_cache_holds_the_truncated_list [OF h a] h a show ?thesis
    by blast
qed

subsection \<open>What the Twitter and RSS handlers write and read back\<close>

lemma normalize_trend_idem: "normalize_trend (normalize_trend t) = normalize_trend t"
  by (simp add: normalize_trend_def split: option.splits)

lemma normalize_trend_comp: "normalize_trend \<circ> normalize_trend = normalize_trend"
  by (rule ext) (simp add: normalize_trend_idem)

lemma map_trends_Some:
  "map_of d ''trends'' = Some (JList ts) \<Longrightarrow>
     map_trends f d = AList.update ''trends'' (JList (map f ts)) d"
  by (simp add: map_trends_def)

lemma twitter_fetch_and_store:
  assumes "map_of result ''success'' = Some ok" and "truthy ok"
    and "map_of result ''trends'' = Some (JList ts)"
    and "cache_hit 3600 fresh t0 slot = None"
  shows "get_twitter_trends result limit fresh t0 slot
    = (Respond 200
         (AList.update ''cached'' (JBool False)
            (AList.update ''trends'' (JList (slice_to limit (map normalize_trend ts))) result)),
       Some (AList.update ''trends'' (JList (map normalize_trend ts)) result, t0))"
  using assms
  by (simp add: get_twitter_trends_def map_trends_Some slice_trends_def update_conv' Let_def)

lemma twitter_read_back:
  assumes "map_of d ''trends'' = Some (JList ts)" and "cache_age t1 t0 < 3600"
  shows "get_twitter_trends result limit False t1 (Some (d, t0))
    = (Respond 200
         (AList.update ''cache_age_seconds'' (JInt (py_int (cache_age t1 t0)))
           (AList.update ''cached'' (JBool True)
             (AList.update ''trends'' (JList (slice_to limit (map normalize_trend ts))) d))),
       Some (d, t0))"
  using assms by (simp add: get_twitter_trends_def cache_hit_Some slice_trends_Some)

lemma rss_fetch_and_store:
  assumes "map_of (collector geo) ''success'' = Some ok" and "truthy ok"
    and "map_of (collector geo) ''trends'' = Some (JList ts)"
    and "cache_hit 7200 fresh t0 slot = None"
  shows "get_google_trends_rss collector limit fresh geo t0 slot
    = (Respond 200
         (AList.update ''source'' (JStr ''rss_fallback'')
           (AList.update ''cached'' (JBool False)
             (AList.update ''trends'' (JList (slice_to limit ts)) (collector geo)))),
       Some (collector geo, t0))"
  using assms
  by (simp add: get_google_trends_rss_def slice_trends_def Let_def)

lemma rss_read_back:
  assumes "map_of d ''trends'' = Some (JList ts)" and "cache_age t1 t0 < 7200"
  shows "get_google_trends_rss collector limit False geo t1 (Some (d, t0))
    = (Respond 200
         (AList.update ''cache_age_seconds'' (JInt (py_int (cache_age t1 t0)))
           (AList.update ''cached'' (JBool True)
             (AList.update ''trends'' (JList (slice_to limit ts)) d))),
       Some (d, t0))"
  using assms by (simp add: get_google_trends_rss_def cache_hit_Some slice_trends_Some)

subsection \<open>Write, then read before expiry\<close>

lemma twitter_round_trip:
  assumes "map_of result ''success'' = Some ok" and "truthy ok"
    and "map_of result ''trends'' = Some (JList ts)"
    and "cache_hit 3600 fresh t0 slot = None"
    and "cache_age t1 t0 < 3600"
  shows "\<exists>stored r1 r2.
      get_twitter_trends result limit fresh t0 slot = (Respond 200 r1, Some (stored, t0))
      \<and> get_twitter_trends result' limit False t1 (Some (stored, t0))
          = (Respond 200 r2, Some (stored, t0))
      \<and> map_of r1 ''trends'' = Some (JList (slice_to limit (map normalize_trend ts)))
      \<and> map_of r2 ''trends'' = map_of r1 ''trends''
      \<and> r2 = AList.update ''cache_age_seconds'' (JInt (py_int (cache_age t1 t0)))
               (AList.update ''cached'' (JBool True) r1)"
proof -
  let ?stored = "AList.update ''trends'' (JList (map normalize_trend ts)) result"
  let ?x = "JList (slice_to limit (map normalize_trend ts)) :: trend val"
  let ?r1 = "AList.update ''cached'' (JBool False) (AList.update ''trends'' ?x result)"
  let ?r2 = "AList.update ''cache_age_seconds'' (JInt (py_int (cache_age t1 t0)))
               (AList.update ''cached'' (JBool True) ?r1)"
  have 1: "get_twitter_trends result limit fresh t0 slot = (Respond 200 ?r1, Some (?stored, t0))"
    by (rule twitter_fetch_and_store [OF assms(1-4)])
  have s: "map_of ?stored ''trends'' = Some (JList (map normalize_trend ts))"
    by (simp add: update_conv')
  have "get_twitter_trends result' limit False t1 (Some (?stored, t0))
    = (Respond 200
         (AList.update ''cache_age_seconds'' (JInt (py_int (cache_age t1 t0)))
           (AList.update ''cached'' (JBool True)
             (AList.update ''trends''
                (JList (slice_to limit (map normalize_trend (map normalize_trend ts)))) ?stored))),
       Some (?stored, t0))"
    by (rule twitter_read_back [OF s assms(5)])
  then have 2: "get_twitter_trends result' limit False t1 (Some (?stored, t0))
          = (Respond 200 ?r2, Some (?stored, t0))"
    by (simp add: normalize_trend_comp)
  have 3: "map_of ?r1 ''trends'' = Some ?x" "map_of ?r2 ''trends'' = map_of ?r1 ''trends''"
    by (simp_all add: update_conv')
  from 1 2 3 show ?thesis by blast
qed

lemma rss_round_trip:
  assumes "map_of (collector geo) ''success'' = Some ok" and "truthy ok"
    and "map_of (collector geo) ''trends'' = Some (JList ts)"
    and "cache_hit 7200 fresh t0 slot = None"
    and "cache_age t1 t0 < 7200"
  shows "\<exists>stored r1 r2.
      get_google_trends_rss collector limit fresh geo t0 slot
          = (Respond 200 r1, Some (stored, t0))
      \<and> get_google_trends_rss collector' limit False geo' t1 (Some (stored, t0))
          = (Respond 200 r2, Some (stored, t0))
      \<and> map_of r1 ''trends'' = Some (JList (slice_to limit ts))
      \<and> map_of r2 ''trends'' = map_of r1 ''trends''
      \<and> r2 = AList.update ''cache_age_seconds'' (JInt (py_int (cache_age t1 t0)))
               (AList.update ''cached'' (JBool True)
                 (AList.update ''trends'' (JList (slice_to limit ts)) stored))"
proof -
  let ?stored = "collector geo"
  let ?x = "AList.update ''trends'' (JList (slice_to limit ts)) ?stored"
  let ?r1 = "AList.update ''source'' (JStr ''rss_fallback'')
               (AList.update ''cached'' (JBool False) ?x)"
  let ?r2 = "AList.update ''cache_age_seconds'' (JInt (py_int (cache_age t1 t0)))
               (AList.update ''cached'' (JBool True) ?x)"
  have 1: "get_google_trends_rss collector limit fresh geo t0 slot
             = (Respond 200 ?r1, Some (?stored, t0))"
    by (rule rss_fetch_and_store [where collector = collector and geo = geo, OF assms(1-4)])
  have 2: "get_google_trends_rss collector' limit False geo' t1 (Some (?stored, t0))
             = (Respond 200 ?r2, Some (?stored, t0))"
    by (rule rss_read_back [OF assms(3,5)])
  have 3: "map_of ?r1 ''trends'' = Some (JList (slice_to limit ts))"
    "map_of ?r2 ''trends'' = map_of ?r1 ''trends''"
    by (simp_all add: update_conv')
  from 1 2 3 show ?thesis by blast
qed

lemma google_round_trip:
  assumes "0 \<le> limit" and "xs \<noteq> []"
    and "cache_hit 43200 fresh t0 slot = None"
    and "cache_age t1 t0 < 43200"
  shows "\<exists>stored r1 r2.
      get_google_trends (serp_collector (SerpJson None (Some xs)) now_iso) limit fresh geo t0 slot
          = (Respond 200 r1, Some (stored, t0))
      \<and> get_google_trends collector' limit False geo' t1 (Some (stored, t0))
          = (Respond 200 r2, Some (stored, t0))
      \<and> map_of r1 ''trends'' = Some (JList (if limit = 0 then xs else take (nat limit) xs))
      \<and> map_of r2 ''trends'' = map_of r1 ''trends''
      \<and> r2 = AList.update ''cache_age_hours'' (JNum (py_round1 (fl (cache_age t1 t0 / 3600))))
               (AList.update ''cache_age_seconds'' (JInt (py_int (cache_age t1 t0)))
                 (AList.update ''cached'' (JBool True) r1))"
proof -
  let ?ts = "if limit \<noteq> 0 then slice_to limit xs else xs"
  let ?stored = "[(''success'', JBool True),
          (''count'', JInt (int (length ?ts))),
          (''total_available'', JInt (int (length xs))),
          (''geo'', JStr geo),
          (''fetched_at'', JStr now_iso),
          (''source'', JStr ''serpapi_trending_now''),
          (''trends'', JList ?ts),
          (''cached'', JBool False)]"
  let ?r2 = "AList.update ''cache_age_hours'' (JNum (py_round1 (fl (cache_age t1 t0 / 3600))))
               (AList.update ''cache_age_seconds'' (JInt (py_int (cache_age t1 t0)))
                 (AList.update ''cached'' (JBool True) ?stored))"
  have sl: "?ts = (if limit = 0 then xs else take (nat limit) xs)"
    using assms(1) by (simp add: slice_to_def)
  have n: "\<not> (limit \<noteq> 0 \<and> limit < int (length ?ts))"
    using assms(1) by (auto simp: slice_to_def)
  have 1: "get_google_trends (serp_collector (SerpJson None (Some xs)) now_iso) limit fresh geo t0 slot
        = (Respond 200 ?stored, Some (?stored, t0))"
    by (rule google_fetch_and_store [OF assms(2,3)])
  have s: "map_of ?stored ''trends'' = Some (JList ?ts)"
    by simp
  have 2: "get_google_trends collector' limit False geo' t1 (Some (?stored, t0))
        = (Respond 200 ?r2, Some (?stored, t0))"
    using google_read_back [OF s assms(4), of collector' limit geo'] n
    by (simp only: if_False)
  have 3: "map_of ?stored ''trends'' = Some (JList (if limit = 0 then xs else take (nat limit) xs))"
    "map_of ?r2 ''trends'' = map_of ?stored ''trends''"
    using sl by (simp_all add: update_conv')
  from 1 2 3 show ?thesis by blast
qed

subsection \<open>C8: the cache round trip\<close>

text \<open>
  C8 says that reading a cached result back gives the same trends, with \<open>cached\<close> and
  \<open>cache_age_seconds\<close> the only fields added. The Google handler adds a third field,
  \<open>cache_age_hours\<close>: a reply with three trends is fetched with limit 2 at second 100 and
  read back at second 160.
\<close>

theorem google_read_adds_cache_age_hours:
  "get_google_trends (serp_collector (SerpJson None (Some [''a'', ''b'', ''c''])) ''t0'') 2 False
       ''US'' 100 None
     = (Respond 200
          [(''success'', JBool True), (''count'', JInt 2), (''total_available'', JInt 3),
           (''geo'', JStr ''US''), (''fetched_at'', JStr ''t0''),
           (''source'', JStr ''serpapi_trending_now''),
           (''trends'', JList [''a'', ''b'']), (''cached'', JBool False)],
        Some ([(''success'', JBool True), (''count'', JInt 2), (''total_available'', JInt 3),
           (''geo'', JStr ''US''), (''fetched_at'', JStr ''t0''),
           (''source'', JStr ''serpapi_trending_now''),
           (''trends'', JList [''a'', ''b'']), (''cached'', JBool False)], 100))
   \<and> fst (get_google_trends (serp_collector (SerpJson None (Some [''a'', ''b'', ''c''])) ''t1'') 2
         False ''US'' 160
         (Some ([(''success'', JBool True), (''count'', JInt 2), (''total_available'', JInt 3),
           (''geo'', JStr ''US''), (''fetched_at'', JStr ''t0''),
           (''source'', JStr ''serpapi_trending_now''),
           (''trends'', JList [''a'', ''b'']), (''cached'', JBool False)], 100)))
     = Respond 200
          [(''success'', JBool True), (''count'', JInt 2), (''total_available'', JInt 3),
           (''geo'', JStr ''US''), (''fetched_at'', JStr ''t0''),
           (''source'', JStr ''serpapi_trending_now''),
           (''trends'', JList [''a'', ''b'']), (''cached'', JBool True),
           (''cache_age_seconds'', JInt 60), (''cache_age_hours'', JNum 0)]
   \<and> map_of [(''success'', JBool True), (''count'', JInt 2), (''total_available'', JInt 3),
           (''geo'', JStr ''US''), (''fetched_at'', JStr ''t0''),
           (''source'', JStr ''serpapi_trending_now''),
           (''trends'', JList [''a'', ''b'']), (''cached'', JBool False)] ''cache_age_hours''
     = None"
proof -
  let ?d = "[(''success'', JBool True), (''count'', JInt 2), (''total_available'', JInt 3),
           (''geo'', JStr ''US''), (''fetched_at'', JStr ''t0''),
           (''source'', JStr ''serpapi_trending_now''),
           (''trends'', JList [''a'', ''b'']), (''cached'', JBool False)] :: string doc"
  have 1: "get_google_trends (serp_collector (SerpJson None (Some [''a'', ''b'', ''c''])) ''t0'') 2
       False ''US'' 100 None = (Respond 200 ?d, Some (?d, 100))"
    using google_fetch_and_store [of "[''a'', ''b'', ''c'']" False 100 None "''t0''" 2 "''US''"]
    by (simp add: cache_hit_def slice_to_def)
  have t: "map_of ?d ''trends'' = Some (JList [''a'', ''b''])"
    by simp
  have 2: "fst (get_google_trends (serp_collector (SerpJson None (Some [''a'', ''b'', ''c''])) ''t1'')
       2 False ''US'' 160 (Some (?d, 100)))
     = Respond 200
          [(''success'', JBool True), (''count'', JInt 2), (''total_available'', JInt 3),
           (''geo'', JStr ''US''), (''fetched_at'', JStr ''t0''),
           (''source'', JStr ''serpapi_trending_now''),
           (''trends'', JList [''a'', ''b'']), (''cached'', JBool True),
           (''cache_age_seconds'', JInt 60), (''cache_age_hours'', JNum 0)]"
    using google_read_back [OF t, of 160 100
        "serp_collector (SerpJson None (Some [''a'', ''b'', ''c''])) ''t1''" 2 "''US''"]
    by (simp add: age_60 hours_60 py_int_def)
  have 3: "map_of ?d ''cache_age_hours'' = None"
    by simp
  from 1 2 3 show ?thesis by blast
qed

text \<open>
  With a negative limit the Google handler cuts twice, once in the collector and once
  more when it reads the file: of three trends the first answer holds two and the cached
  answer one. The Twitter and RSS handlers store the whole list and cut once per answer.
\<close>

lemma google_negative_limit_cuts_twice:
  "get_google_trends (serp_collector (SerpJson None (Some [''a'', ''b'', ''c''])) ''t0'') (- 1) False
       ''US'' 100 None
     = (Respond 200
          [(''success'', JBool True), (''count'', JInt 2), (''total_available'', JInt 3),
           (''geo'', JStr ''US''), (''fetched_at'', JStr ''t0''),
           (''source'', JStr ''serpapi_trending_now''),
           (''trends'', JList [''a'', ''b'']), (''cached'', JBool False)],
        Some ([(''success'', JBool True), (''count'', JInt 2), (''total_available'', JInt 3),
           (''geo'', JStr ''US''), (''fetched_at'', JStr ''t0''),
           (''source'', JStr ''serpapi_trending_now''),
           (''trends'', JList [''a'', ''b'']), (''cached'', JBool False)], 100))
   \<and> fst (get_google_trends (serp_collector (SerpJson None (Some [''a'', ''b'', ''c''])) ''t1'') (- 1)
         False ''US'' 160
         (Some ([(''success'', JBool True), (''count'', JInt 2), (''total_available'', JInt 3),
           (''geo'', JStr ''US''), (''fetched_at'', JStr ''t0''),
           (''source'', JStr ''serpapi_trending_now''),
           (''trends'', JList [''a'', ''b'']), (''cached'', JBool False)], 100)))
     = Respond 200
          [(''success'', JBool True), (''count'', JInt 2), (''total_available'', JInt 3),
           (''geo'', JStr ''US''), (''fetched_at'', JStr ''t0''),
           (''source'', JStr ''serpapi_trending_now''),
           (''trends'', JList [''a'']), (''cached'', JBool True),
           (''cache_age_seconds'', JInt 60), (''cache_age_hours'', JNum 0)]"
proof -
  let ?d = "[(''success'', JBool True), (''count'', JInt 2), (''total_available'', JInt 3),
           (''geo'', JStr ''US''), (''fetched_at'', JStr ''t0''),
           (''source'', JStr ''serpapi_trending_now''),
           (''trends'', JList [''a'', ''b'']), (''cached'', JBool False)] :: string doc"
  have 1: "get_google_trends (serp_collector (SerpJson None (Some [''a'', ''b'', ''c''])) ''t0'') (- 1)
       False ''US'' 100 None = (Respond 200 ?d, Some (?d, 100))"
    using google_fetch_and_store [of "[''a'', ''b'', ''c'']" False 100 None "''t0''" "- 1" "''US''"]
    by (simp add: cache_hit_def slice_to_def)
  have t: "map_of ?d ''trends'' = Some (JList [''a'', ''b''])"
    by simp
  have 2: "fst (get_google_trends (serp_collector (SerpJson None (Some [''a'', ''b'', ''c''])) ''t1'')
       (- 1) False ''US'' 160 (Some (?d, 100)))
     = Respond 200
          [(''success'', JBool True), (''count'', JInt 2), (''total_available'', JInt 3),
           (''geo'', JStr ''US''), (''fetched_at'', JStr ''t0''),
           (''source'', JStr ''serpapi_trending_now''),
           (''trends'', JList [''a'']), (''cached'', JBool True),
           (''cache_age_seconds'', JInt 60), (''cache_age_hours'', JNum 0)]"
    using google_read_back [OF t, of 160 100
        "serp_collector (SerpJson None (Some [''a'', ''b'', ''c''])) ''t1''" "- 1" "''US''"]
    by (simp add: age_60 hours_60 py_int_def slice_to_def)
  from 1 2 show ?thesis by blast
qed

text \<open>
  C8 as amended. A handler fetches with limit \<open>L\<close> at time \<open>t0\<close> (a forced refresh, or no
  fresh file), the collector succeeds and the result has a list of trends; a request with
  the same limit finds the file fresh at time \<open>t1\<close>. Then the second answer has the same
  trends as the first: for the Twitter and RSS handlers whatever the limit, for the Google
  handler when the limit is not negative. The file is not changed by the read. The read
  path sets \<open>cached\<close> and \<open>cache_age_seconds\<close>, and the Google handler \<open>cache_age_hours\<close>
  as well; nothing else differs from the first answer, but that the RSS handler's first
  answer carries \<open>source = rss_fallback\<close>, which is not written to the file.
\<close>

theorem cache_round_trip:
  "(map_of result ''success'' = Some ok \<and> truthy ok
      \<and> map_of result ''trends'' = Some (JList ts)
      \<and> cache_hit 3600 fresh t0 slot = None \<and> cache_age t1 t0 < 3600 \<longrightarrow>
      (\<exists>stored r1 r2.
         get_twitter_trends result limit fresh t0 slot = (Respond 200 r1, Some (stored, t0))
         \<and> get_twitter_trends result' limit False t1 (Some (stored, t0))
             = (Respond 200 r2, Some (stored, t0))
         \<and> map_of r1 ''trends'' = Some (JList (slice_to limit (map normalize_trend ts)))
         \<and> map_of r2 ''trends'' = map_of r1 ''trends''
         \<and> r2 = AList.update ''cache_age_seconds'' (JInt (py_int (cache_age t1 t0)))
                  (AList.update ''cached'' (JBool True) r1)))
   \<and> (map_of (rcollector geo) ''success'' = Some rok \<and> truthy rok
      \<and> map_of (rcollector geo) ''trends'' = Some (JList rts)
      \<and> cache_hit 7200 fresh t0 rslot = None \<and> cache_age t1 t0 < 7200 \<longrightarrow>
      (\<exists>stored r1 r2.
         get_google_trends_rss rcollector limit fresh geo t0 rslot
             = (Respond 200 r1, Some (stored, t0))
         \<and> get_google_trends_rss rcollector' limit False geo' t1 (Some (stored, t0))
             = (Respond 200 r2, Some (stored, t0))
         \<and> map_of r1 ''trends'' = Some (JList (slice_to limit rts))
         \<and> map_of r2 ''trends'' = map_of r1 ''trends''
         \<and> r2 = AList.update ''cache_age_seconds'' (JInt (py_int (cache_age t1 t0)))
                  (AList.update ''cached'' (JBool True)
                    (AList.update ''trends'' (JList (slice_to limit rts)) stored))))
   \<and> (0 \<le> limit \<and> xs \<noteq> []
      \<and> cache_hit 43200 fresh t0 gslot = None \<and> cache_age t1 t0 < 43200 \<longrightarrow>
      (\<exists>stored r1 r2.
         get_google_trends (serp_collector (SerpJson None (Some xs)) now_iso) limit fresh geo t0
               gslot
             = (Respond 200 r1, Some (stored, t0))
         \<and> get_google_trends gcollector' limit False geo' t1 (Some (stored, t0))
             = (Respond 200 r2, Some (stored, t0))
         \<and> map_of r1 ''trends'' = Some (JList (if limit = 0 then xs else take (nat limit) xs))
         \<and> map_of r2 ''trends'' = map_of r1 ''trends''
         \<and> r2 = AList.update ''cache_age_hours'' (JNum (py_round1 (fl (cache_age t1 t0 / 3600))))
                  (AList.update ''cache_age_seconds'' (JInt (py_int (cache_age t1 t0)))
                    (AList.update ''cached'' (JBool True) r1))))"
proof (intro conjI impI)
  assume "map_of result ''success'' = Some ok \<and> truthy ok
      \<and> map_of result ''trends'' = Some (JList ts)
      \<and> cache_hit 3600 fresh t0 slot = None \<and> cache_age t1 t0 < 3600"
  then show "\<exists>stored r1 r2.
         get_twitter_trends result limit fresh t0 slot = (Respond 200 r1, Some (stored, t0))
         \<and> get_twitter_trends result' limit False t1 (Some (stored, t0))
             = (Respond 200 r2, Some (stored, t0))
         \<and> map_of r1 ''trends'' = Some (JList (slice_to limit (map normalize_trend ts)))
         \<and> map_of r2 ''trends'' = map_of r1 ''trends''
         \<and> r2 = AList.update ''cache_age_seconds'' (JInt (py_int (cache_age t1 t0)))
                  (AList.update ''cached'' (JBool True) r1)"
    using twitter_round_trip [of result ok ts fresh t0 slot t1 limit result'] by blast
next
  assume "map_of (rcollector geo) ''success'' = Some rok \<and> truthy rok
      \<and> map_of (rcollector geo) ''trends'' = Some (JList rts)
      \<and> cache_hit 7200 fresh t0 rslot = None \<and> cache_age t1 t0 < 7200"
  then show "\<exists>stored r1 r2.
         get_google_trends_rss rcollector limit fresh geo t0 rslot
             = (Respond 200 r1, Some (stored, t0))
         \<and> get_google_trends_rss rcollector' limit False geo' t1 (Some (stored, t0))
             = (Respond 200 r2, Some (stored, t0))
         \<and> map_of r1 ''trends'' = Some (JList (slice_to limit rts))
         \<and> map_of r2 ''trends'' = map_of r1 ''trends''
         \<and> r2 = AList.update ''cache_age_seconds'' (JInt (py_int (cache_age t1 t0)))
                  (AList.update ''cached'' (JBool True)
                    (AList.update ''trends'' (JList (slice_to limit rts)) stored))"
    using rss_round_trip [of rcollector geo rok rts fresh t0 rslot t1 limit rcollector' geo']
    by blast
next
  assume "0 \<le> limit \<and> xs \<noteq> []
      \<and> cache_hit 43200 fresh t0 gslot = None \<and> cache_age t1 t0 < 43200"
  then show "\<exists>stored r1 r2.
         get_google_trends (serp_collector (SerpJson None (Some xs)) now_iso) limit fresh geo t0
               gslot
             = (Respond 200 r1, Some (stored, t0))
         \<and> get_google_trends gcollector' limit False geo' t1 (Some (stored, t0))
             = (Respond 200 r2, Some (stored, t0))
         \<and> map_of r1 ''trends'' = Some (JList (if limit = 0 then xs else take (nat limit) xs))
         \<and> map_of r2 ''trends'' = map_of r1 ''trends''
         \<and> r2 = AList.update ''cache_age_hours'' (JNum (py_round1 (fl (cache_age t1 t0 / 3600))))
                  (AList.update ''cache_age_seconds'' (JInt (py_int (cache_age t1 t0)))
                    (AList.update ''cached'' (JBool True) r1))"
    using google_round_trip [of limit xs fresh t0 gslot t1 now_iso geo gcollector' geo']
    by blast
qed

text \<open>
  The witness: each handler fetches with limit 1 at second 100, with no cache file, and is
  asked again at second 160.
\<close>

theorem cache_round_trip_witness:
  "cache_age 160 100 < 3600
   \<and> (\<exists>stored r1 r2.
         get_twitter_trends
             [(''success'', JBool True), (''count'', JInt 1),
              (''trends'', JList [\<lparr>t_hashtag = ''#a'', t_mentions = 1, t_total_engagement = 3,
                   t_velocity_score = 3, t_rank = 1, t_source = ''twitter_search'',
                   t_timestamp = ''t0'', t_topic = None\<rparr>]),
              (''fetched_at'', JStr ''t0'')] 1 False 100 None
           = (Respond 200 r1, Some (stored, 100))
         \<and> get_twitter_trends [] 1 False 160 (Some (stored, 100))
             = (Respond 200 r2, Some (stored, 100))
         \<and> map_of r1 ''trends''
             = Some (JList [\<lparr>t_hashtag = ''#a'', t_mentions = 1, t_total_engagement = 3,
                   t_velocity_score = 3, t_rank = 1, t_source = ''twitter_search'',
                   t_timestamp = ''t0'', t_topic = Some ''#a''\<rparr>])
         \<and> map_of r2 ''trends'' = map_of r1 ''trends''
         \<and> r2 = AList.update ''cache_age_seconds'' (JInt 60)
                  (AList.update ''cached'' (JBool True) r1))
   \<and> (\<exists>stored r1 r2.
         get_google_trends_rss (\<lambda>geo. [(''success'', JBool True), (''trends'', JList [''x'', ''y''])])
             1 False ''US'' 100 None
           = (Respond 200 r1, Some (stored, 100))
         \<and> get_google_trends_rss (\<lambda>geo. []) 1 False ''US'' 160 (Some (stored, 100))
             = (Respond 200 r2, Some (stored, 100))
         \<and> map_of r1 ''trends'' = Some (JList [''x''])
         \<and> map_of r2 ''trends'' = map_of r1 ''trends'')
   \<and> (\<exists>stored r1 r2.
         get_google_trends (serp_collector (SerpJson None (Some [''a'', ''b'', ''c''])) ''t0'') 1
             False ''US'' 100 None
           = (Respond 200 r1, Some (stored, 100))
         \<and> get_google_trends (\<lambda>geo limit. []) 1 False ''US'' 160 (Some (stored, 100))
             = (Respond 200 r2, Some (stored, 100))
         \<and> map_of r1 ''trends'' = Some (JList [''a''])
         \<and> map_of r2 ''trends'' = map_of r1 ''trends''
         \<and> r2 = AList.update ''cache_age_hours'' (JNum 0)
                  (AList.update ''cache_age_seconds'' (JInt 60)
                    (AList.update ''cached'' (JBool True) r1)))"
proof -
  let ?t = "\<lparr>t_hashtag = ''#a'', t_mentions = 1, t_total_engagement = 3,
                   t_velocity_score = 3, t_rank = 1, t_source = ''twitter_search'',
                   t_timestamp = ''t0'', t_topic = None\<rparr>"
  let ?result = "[(''success'', JBool True), (''count'', JInt 1), (''trends'', JList [?t]),
              (''fetched_at'', JStr ''t0'')]"
  let ?rc = "\<lambda>geo :: string. [(''success'', JBool True), (''trends'', JList [''x'', ''y''])] :: string doc"
  note t = cache_round_trip
    [where result = ?result and ok = "JBool True" and ts = "[?t]" and fresh = False
       and ?t0.0 = 100 and ?t1.0 = 160 and slot = None and limit = 1 and result' = "[]"
       and rcollector = ?rc and geo = "''US''" and rok = "JBool True" and rts = "[''x'', ''y'']"
       and rslot = None and rcollector' = "\<lambda>geo. []" and geo' = "''US''"
       and xs = "[''a'', ''b'', ''c'']" and gslot = None and now_iso = "''t0''"
       and gcollector' = "\<lambda>geo limit. []"]
  have tw: "\<exists>stored r1 r2.
         get_twitter_trends ?result 1 False 100 None = (Respond 200 r1, Some (stored, 100))
         \<and> get_twitter_trends [] 1 False 160 (Some (stored, 100))
             = (Respond 200 r2, Some (stored, 100))
         \<and> map_of r1 ''trends'' = Some (JList (slice_to 1 (map normalize_trend [?t])))
         \<and> map_of r2 ''trends'' = map_of r1 ''trends''
         \<and> r2 = AList.update ''cache_age_seconds'' (JInt (py_int (cache_age 160 100)))
                  (AList.update ''cached'' (JBool True) r1)"
    using t by (simp add: age_60 cache_hit_def)
  have rs: "\<exists>stored r1 r2.
         get_google_trends_rss ?rc 1 False ''US'' 100 None = (Respond 200 r1, Some (stored, 100))
         \<and> get_google_trends_rss (\<lambda>geo. []) 1 False ''US'' 160 (Some (stored, 100))
             = (Respond 200 r2, Some (stored, 100))
         \<and> map_of r1 ''trends'' = Some (JList (slice_to 1 [''x'', ''y'']))
         \<and> map_of r2 ''trends'' = map_of r1 ''trends''
         \<and> r2 = AList.update ''cache_age_seconds'' (JInt (py_int (cache_age 160 100)))
                  (AList.update ''cached'' (JBool True)
                    (AList.update ''trends'' (JList (slice_to 1 [''x'', ''y''])) stored))"
    using t by (simp add: age_60 cache_hit_def)
  have go: "\<exists>stored r1 r2.
         get_google_trends (serp_collector (SerpJson None (Some [''a'', ''b'', ''c''])) ''t0'') 1
             False ''US'' 100 None
           = (Respond 200 r1, Some (stored, 100))
         \<and> get_google_trends (\<lambda>geo limit. []) 1 False ''US'' 160 (Some (stored, 100))
             = (Respond 200 r2, Some (stored, 100))
         \<and> map_of r1 ''trends'' = Some (JList (if (1::int) = 0 then [''a'', ''b'', ''c'']
                                                else take (nat 1) [''a'', ''b'', ''c'']))
         \<and> map_of r2 ''trends'' = map_of r1 ''trends''
         \<and> r2 = AList.update ''cache_age_hours''
                    (JNum (py_round1 (fl (cache_age 160 100 / 3600))))
                  (AList.update ''cache_age_seconds'' (JInt (py_int (cache_age 160 100)))
                    (AList.update ''cached'' (JBool True) r1))"
    using t by (simp add: age_60 cache_hit_def)
  have n: "slice_to 1 (map normalize_trend [?t])
             = [\<lparr>t_hashtag = ''#a'', t_mentions = 1, t_total_engagement = 3,
                   t_velocity_score = 3, t_rank = 1, t_source = ''twitter_search'',
                   t_timestamp = ''t0'', t_topic = Some ''#a''\<rparr>]"
    "slice_to 1 [''x'', ''y''] = [''x'']"
    "(if (1::int) = 0 then [''a'', ''b'', ''c''] else take (nat 1) [''a'', ''b'', ''c'']) = [''a'']"
    "py_int (cache_age 160 100) = 60"
    "py_round1 (fl (cache_age 160 100 / 3600)) = 0"
    by (simp_all add: slice_to_def normalize_trend_def age_60 hours_60 py_int_def)
  have a: "cache_age 160 100 < 3600"
    by (simp add: age_60)
  from tw rs go a show ?thesis
    unfolding n by blast
qed


end
